theory Spec2Isabelle
  imports Complex_Main
begin

section \<open>Numbers, strings and arrays of the source language\<close>

text \<open>
  The program is TypeScript. A \<open>number\<close> is modelled as a \<open>real\<close> (an idealised double:
  rounding, infinities and NaN are outside the model); the playback index, which the
  program only ever uses to index an array, is an \<open>int\<close>; clock values
  (\<open>Date.now()\<close>, \<open>Date\<close> objects) are a \<open>nat\<close> of milliseconds. \<open>null\<close> and
  \<open>undefined\<close> are \<open>None\<close>.
\<close>

text \<open>\<open>Math.round\<close>: the nearest integer, a tie going up.\<close>

definition js_round :: "real \<Rightarrow> real" where
  "js_round x = of_int \<lfloor>x + 1 / 2\<rfloor>"

text \<open>\<open>Math.atan2(y, x)\<close> (signed zeros apart).\<close>

definition atan2 :: "real \<Rightarrow> real \<Rightarrow> real" where
  "atan2 y x =
     (if 0 < x then arctan (y / x)
      else if x < 0 \<and> 0 \<le> y then arctan (y / x) + pi
      else if x < 0 \<and> y < 0 then arctan (y / x) - pi
      else if 0 < y then pi / 2
      else if y < 0 then - (pi / 2)
      else 0)"

text \<open>\<open>xs[i]\<close>: \<open>undefined\<close> outside the array.\<close>

definition js_index :: "'a list \<Rightarrow> int \<Rightarrow> 'a option" where
  "js_index xs i = (if 0 \<le> i \<and> i < int (length xs) then Some (xs ! nat i) else None)"

text \<open>\<open>xs.slice(-n)\<close> for a positive \<open>n\<close>: the last \<open>n\<close> elements, all of them when there are fewer.\<close>

definition slice_last :: "nat \<Rightarrow> 'a list \<Rightarrow> 'a list" where
  "slice_last n xs = drop (length xs - n) xs"

text \<open>\<open>xs.slice(0, n)\<close>.\<close>

definition slice_first :: "nat \<Rightarrow> 'a list \<Rightarrow> 'a list" where
  "slice_first n xs = take n xs"

text \<open>A natural number in a template string: its decimal digits.\<close>

fun showNat :: "nat \<Rightarrow> string" where
  "showNat n =
     (if n < 10 then [char_of (48 + n)]
      else showNat (n div 10) @ [char_of (48 + n mod 10)])"

declare showNat.simps [simp del]

section \<open>Data model (types/tracking)\<close>

datatype DeviceType = mining_vehicle | personnel | equipment

datatype DeviceStatus = operational | status_breakdown | maintenance | status_emergency

datatype AlertType =
  geofence_enter | geofence_exit | low_battery | connection_lost | speeding
  | breakdown | emergency | signal_lost

datatype Priority = low | medium | high | critical

datatype ZoneType = safe | restricted | hazard | emergency_point

datatype MineZoneType = tunnel | shaft | station | extraction | emergency_exit

record GPSPosition =
  pos_id :: string
  latitude :: real
  longitude :: real
  timestamp :: nat
  speed :: real
  heading :: real
  altitude :: "real option"
  accuracy :: "real option"
  battery :: "real option"
  depth :: "real option"
  zone :: "string option"
  signalStrength :: "real option"

record Device =
  dev_id :: string
  dev_name :: string
  dev_type :: DeviceType
  lastPosition :: "GPSPosition option"
  isOnline :: bool
  lastSeen :: nat
  status :: "DeviceStatus option"

record LatLng =
  lat :: real
  lng :: real

record MineZone =
  zone_id :: string
  zone_name :: string
  level :: int
  coordinates :: "LatLng list"
  zone_type :: MineZoneType
  beaconCount :: "nat option"

record Geofence =
  fence_id :: string
  fence_name :: string
  center :: LatLng
  radius :: real
  isActive :: bool
  alertOnEnter :: bool
  alertOnExit :: bool
  zoneType :: "ZoneType option"

record AlertLocation =
  loc_lat :: real
  loc_lng :: real
  loc_depth :: "real option"

record Alert =
  alert_id :: string
  alert_type :: AlertType
  message :: string
  alert_timestamp :: nat
  isRead :: bool
  deviceId :: string
  geofenceId :: "string option"
  priority :: "Priority option"
  location :: "AlertLocation option"

text \<open>
  \<open>TrackingState\<close>. The field \<open>device\<close> has type \<open>Device | null\<close> in the source; the
  hook initialises it to \<open>miningVehicle\<close> and every update maps a device to a device, so
  it is never \<open>null\<close> and the model keeps a \<open>Device\<close>.
\<close>

record TrackingState =
  currentPosition :: "GPSPosition option"
  trackHistory :: "GPSPosition list"
  device :: Device
  geofences :: "Geofence list"
  alerts :: "Alert list"
  isPlaying :: bool
  playbackIndex :: int
  playbackSpeed :: real
  mineZones :: "MineZone list"
  isUnderground :: bool

text \<open>
  The state of the hook \<open>useTracking\<close>: the tracking state, the two status flags it
  keeps beside it, and the ref \<open>initialPositionSet\<close>.
\<close>

record useTracking =
  state :: TrackingState
  locationError :: "string option"
  isLocating :: bool
  initialPositionSet :: bool

text \<open>The browser's \<open>GeolocationPosition\<close>: \<open>coords\<close> and \<open>timestamp\<close>.\<close>

record GeolocationPosition =
  coords_latitude :: real
  coords_longitude :: real
  coords_accuracy :: real
  coords_speed :: "real option"
  coords_heading :: "real option"
  coords_altitude :: "real option"
  position_timestamp :: nat

definition miningVehicle :: Device where
  "miningVehicle =
     \<lparr>dev_id = ''vehicle-001'', dev_name = ''Mining Truck #1'', dev_type = mining_vehicle,
      lastPosition = None, isOnline = True, lastSeen = 0, status = Some operational\<rparr>"

text \<open>The hook's initial state (\<open>lastSeen\<close> is the time of creation, written 0 here).\<close>

definition initialState :: TrackingState where
  "initialState =
     \<lparr>currentPosition = None, trackHistory = [], device = miningVehicle, geofences = [],
      alerts = [], isPlaying = False, playbackIndex = - 1, playbackSpeed = 1,
      mineZones = [], isUnderground = False\<rparr>"

definition initialHook :: useTracking where
  "initialHook =
     \<lparr>state = initialState, locationError = None, isLocating = True,
      initialPositionSet = False\<rparr>"

section \<open>Playback controls of useTracking\<close>

definition startPlayback :: "TrackingState \<Rightarrow> TrackingState" where
  "startPlayback prev = prev\<lparr>isPlaying := True, playbackIndex := 0\<rparr>"

definition stopPlayback :: "TrackingState \<Rightarrow> TrackingState" where
  "stopPlayback prev =
     prev\<lparr>isPlaying := False, playbackIndex := - 1,
          currentPosition :=
            js_index (trackHistory prev) (int (length (trackHistory prev)) - 1)\<rparr>"

definition setPlaybackIndex :: "int \<Rightarrow> TrackingState \<Rightarrow> TrackingState" where
  "setPlaybackIndex index prev =
     (let pos = js_index (trackHistory prev) index
      in prev\<lparr>playbackIndex := index,
              currentPosition :=
                (case pos of Some p \<Rightarrow> Some p | None \<Rightarrow> currentPosition prev)\<rparr>)"

definition setPlaybackSpeed :: "real \<Rightarrow> TrackingState \<Rightarrow> TrackingState" where
  "setPlaybackSpeed speed' prev = prev\<lparr>playbackSpeed := speed'\<rparr>"

text \<open>The state update of one firing of the playback interval.\<close>

definition playbackTick :: "TrackingState \<Rightarrow> TrackingState" where
  "playbackTick prev =
     (let nextIndex = playbackIndex prev + 1
      in if nextIndex \<ge> int (length (trackHistory prev))
         then prev\<lparr>isPlaying := False,
                   playbackIndex := int (length (trackHistory prev)) - 1\<rparr>
         else prev\<lparr>playbackIndex := nextIndex,
                   currentPosition := js_index (trackHistory prev) nextIndex\<rparr>)"

section \<open>Live ingestion of useTracking\<close>

text \<open>
  Reading \<open>zone.coordinates[0].lat\<close> of a zone without coordinates throws; it is the
  only failure of the ingestion path.
\<close>

datatype error = TypeError

text \<open>Haversine distance in metres.\<close>

definition getDistance :: "real \<Rightarrow> real \<Rightarrow> real \<Rightarrow> real \<Rightarrow> real" where
  "getDistance lat1 lon1 lat2 lon2 =
     (let R = 6371000;
          phi1 = lat1 * pi / 180;
          phi2 = lat2 * pi / 180;
          dphi = (lat2 - lat1) * pi / 180;
          dlambda = (lon2 - lon1) * pi / 180;
          a = sin (dphi / 2) * sin (dphi / 2)
              + cos phi1 * cos phi2 * sin (dlambda / 2) * sin (dlambda / 2);
          c = 2 * atan2 (sqrt a) (sqrt (1 - a))
      in R * c)"

definition createMineZones :: "real \<Rightarrow> real \<Rightarrow> MineZone list" where
  "createMineZones la lo =
     [\<lparr>zone_id = ''zone-main-tunnel'', zone_name = ''Main Tunnel'', level = - 1,
       coordinates = [\<lparr>lat = la - 0.001, lng = lo - 0.002\<rparr>,
                      \<lparr>lat = la + 0.001, lng = lo + 0.002\<rparr>],
       zone_type = tunnel, beaconCount = Some 8\<rparr>,
      \<lparr>zone_id = ''zone-extraction'', zone_name = ''Extraction Zone A'', level = - 2,
       coordinates = [\<lparr>lat = la - 0.0005, lng = lo - 0.001\<rparr>,
                      \<lparr>lat = la + 0.0005, lng = lo + 0.001\<rparr>],
       zone_type = extraction, beaconCount = Some 4\<rparr>,
      \<lparr>zone_id = ''zone-shaft'', zone_name = ''Main Shaft'', level = 0,
       coordinates = [\<lparr>lat = la, lng = lo\<rparr>],
       zone_type = shaft, beaconCount = Some 2\<rparr>,
      \<lparr>zone_id = ''zone-emergency'', zone_name = ''Emergency Exit'', level = - 1,
       coordinates = [\<lparr>lat = la + 0.002, lng = lo + 0.001\<rparr>],
       zone_type = emergency_exit, beaconCount = Some 1\<rparr>]"

definition createMineGeofences :: "real \<Rightarrow> real \<Rightarrow> Geofence list" where
  "createMineGeofences la lo =
     [\<lparr>fence_id = ''geofence-safe-zone'', fence_name = ''Safe Zone - Surface'',
       center = \<lparr>lat = la, lng = lo\<rparr>, radius = 200, isActive = True,
       alertOnEnter = False, alertOnExit = True, zoneType = Some safe\<rparr>,
      \<lparr>fence_id = ''geofence-hazard'', fence_name = ''Hazard Zone - Blasting Area'',
       center = \<lparr>lat = la - 0.001, lng = lo - 0.001\<rparr>, radius = 100, isActive = True,
       alertOnEnter = True, alertOnExit = False, zoneType = Some hazard\<rparr>,
      \<lparr>fence_id = ''geofence-emergency'', fence_name = ''Emergency Rally Point'',
       center = \<lparr>lat = la + 0.002, lng = lo + 0.001\<rparr>, radius = 50, isActive = True,
       alertOnEnter = False, alertOnExit = False, zoneType = Some emergency_point\<rparr>]"

text \<open>
  \<open>calculateDepth(accuracy, history)\<close> reads the clock; \<open>now\<close> is the value of
  \<open>Date.now()\<close>. The history is not used by the source either.
\<close>

definition calculateDepth :: "nat \<Rightarrow> real \<Rightarrow> GPSPosition list \<Rightarrow> real" where
  "calculateDepth now acc history =
     (if acc > 50
      then (let baseDepth = min (acc / 2) 200;
                variation = sin (real now / 10000) * 20
            in js_round (baseDepth + variation))
      else 0)"

definition calculateSignalStrength :: "real \<Rightarrow> real \<Rightarrow> real" where
  "calculateSignalStrength acc depth' =
     (let baseSignal = max 0 (100 - acc);
          depthPenalty = depth' * 0.3
      in max 5 (js_round (baseSignal - depthPenalty)))"

fun determineZone :: "real \<Rightarrow> real \<Rightarrow> MineZone list \<Rightarrow> error + string" where
  "determineZone la lo [] = Inr ''Surface''"
| "determineZone la lo (z # zones) =
     (case coordinates z of
        [] \<Rightarrow> Inl TypeError
      | c # _ \<Rightarrow>
          if getDistance la lo (lat c) (lng c) < 100 then Inr (zone_name z)
          else determineZone la lo zones)"

text \<open>The object literal \<open>newPosition\<close> of \<open>handlePosition\<close>.\<close>

definition newPosition ::
  "nat \<Rightarrow> GeolocationPosition \<Rightarrow> real \<Rightarrow> string \<Rightarrow> real \<Rightarrow> GPSPosition" where
  "newPosition now position depth' zone' signalStrength' =
     \<lparr>pos_id = ''pos-'' @ showNat now,
      latitude = coords_latitude position,
      longitude = coords_longitude position,
      timestamp = position_timestamp position,
      speed = (case coords_speed position of
                 None \<Rightarrow> 0
               | Some v \<Rightarrow> if v \<noteq> 0 then v * 3.6 else 0),
      heading = (case coords_heading position of None \<Rightarrow> 0 | Some v \<Rightarrow> v),
      altitude = Some (case coords_altitude position of None \<Rightarrow> 0 | Some v \<Rightarrow> v),
      accuracy = Some (coords_accuracy position),
      battery = Some 85,
      depth = Some depth',
      zone = Some zone',
      signalStrength = Some signalStrength'\<rparr>"

definition alertLocation :: "GPSPosition \<Rightarrow> real \<Rightarrow> AlertLocation" where
  "alertLocation np depth' =
     \<lparr>loc_lat = latitude np, loc_lng = longitude np, loc_depth = Some depth'\<rparr>"

definition exitAlert :: "nat \<Rightarrow> Device \<Rightarrow> Geofence \<Rightarrow> GPSPosition \<Rightarrow> real \<Rightarrow> Alert" where
  "exitAlert now dev fence np depth' =
     \<lparr>alert_id = ''alert-'' @ showNat now, alert_type = geofence_exit,
      message = dev_name dev @ '' left '' @ fence_name fence,
      alert_timestamp = now, isRead = False, deviceId = dev_id dev,
      geofenceId = Some (fence_id fence),
      priority = Some (if zoneType fence = Some safe then high else medium),
      location = Some (alertLocation np depth')\<rparr>"

definition enterAlert :: "nat \<Rightarrow> Device \<Rightarrow> Geofence \<Rightarrow> GPSPosition \<Rightarrow> real \<Rightarrow> Alert" where
  "enterAlert now dev fence np depth' =
     \<lparr>alert_id = ''alert-'' @ showNat now, alert_type = geofence_enter,
      message = dev_name dev @ '' entered '' @ fence_name fence,
      alert_timestamp = now, isRead = False, deviceId = dev_id dev,
      geofenceId = Some (fence_id fence),
      priority = Some (if zoneType fence = Some hazard then critical else low),
      location = Some (alertLocation np depth')\<rparr>"

definition signalAlert :: "nat \<Rightarrow> Device \<Rightarrow> GPSPosition \<Rightarrow> real \<Rightarrow> Alert" where
  "signalAlert now dev np depth' =
     \<lparr>alert_id = ''alert-'' @ showNat now @ ''-signal'', alert_type = signal_lost,
      message = ''Low signal for '' @ dev_name dev @ '' - Position may be inaccurate'',
      alert_timestamp = now, isRead = False, deviceId = dev_id dev,
      geofenceId = None, priority = Some high,
      location = Some (alertLocation np depth')\<rparr>"

text \<open>
  The body of \<open>geofences.forEach\<close>: what one fence does to the array \<open>newAlerts\<close>
  (\<open>unshift\<close> puts an alert in front).
\<close>

definition checkFence ::
  "nat \<Rightarrow> Device \<Rightarrow> GPSPosition option \<Rightarrow> GPSPosition \<Rightarrow> real \<Rightarrow> Geofence
     \<Rightarrow> Alert list \<Rightarrow> Alert list" where
  "checkFence now dev lastPos np depth' fence newAlerts =
     (case lastPos of
        None \<Rightarrow> newAlerts
      | Some lp \<Rightarrow>
          if \<not> isActive fence then newAlerts
          else
            (let currentDistance =
                   getDistance (lat (center fence)) (lng (center fence))
                     (latitude np) (longitude np);
                 wasInside =
                   (getDistance (lat (center fence)) (lng (center fence))
                      (latitude lp) (longitude lp) \<le> radius fence);
                 isInside = (currentDistance \<le> radius fence);
                 afterExit =
                   (if wasInside \<and> \<not> isInside \<and> alertOnExit fence
                    then exitAlert now dev fence np depth' # newAlerts
                    else newAlerts)
             in if \<not> wasInside \<and> isInside \<and> alertOnEnter fence
                then enterAlert now dev fence np depth' # afterExit
                else afterExit))"

text \<open>
  The test of the signal-loss alert:
  \<open>signalStrength < 20 && prev.currentPosition?.signalStrength &&
  prev.currentPosition.signalStrength >= 20\<close>; the middle operand is the truthiness of a
  number.
\<close>

definition signalLost :: "real \<Rightarrow> GPSPosition option \<Rightarrow> bool" where
  "signalLost signalStrength' lastPos =
     (signalStrength' < 20 \<and>
      (case lastPos of
         None \<Rightarrow> False
       | Some lp \<Rightarrow>
           (case signalStrength lp of
              None \<Rightarrow> False
            | Some v \<Rightarrow> v \<noteq> 0 \<and> v \<ge> 20)))"

text \<open>
  \<open>handlePosition\<close>: the callback of \<open>watchPosition\<close>. It clears the two status flags,
  then updates the tracking state; \<open>now\<close> is the clock at the call.
\<close>

definition handlePosition :: "nat \<Rightarrow> GeolocationPosition \<Rightarrow> useTracking \<Rightarrow> error + useTracking" where
  "handlePosition now position h =
     (let h1 = h\<lparr>isLocating := False, locationError := None\<rparr>;
          prev = state h
      in if isPlaying prev then Inr h1
         else
           (let depth' = calculateDepth now (coords_accuracy position) (trackHistory prev);
                signalStrength' = calculateSignalStrength (coords_accuracy position) depth';
                isUnderground' = (depth' > 10);
                mineZones' =
                  (if \<not> initialPositionSet h
                   then createMineZones (coords_latitude position) (coords_longitude position)
                   else mineZones prev);
                geofences' =
                  (if \<not> initialPositionSet h
                   then createMineGeofences (coords_latitude position) (coords_longitude position)
                   else geofences prev)
            in case determineZone (coords_latitude position) (coords_longitude position)
                      mineZones' of
                 Inl e \<Rightarrow> Inl e
               | Inr zone' \<Rightarrow>
                   (let np = newPosition now position depth' zone' signalStrength';
                        newHistory = slice_last 199 (trackHistory prev) @ [np];
                        lastPos = currentPosition prev;
                        fenceAlerts =
                          fold (checkFence now (device prev) lastPos np depth') geofences'
                            (alerts prev);
                        newAlerts =
                          (if signalLost signalStrength' (currentPosition prev)
                           then signalAlert now (device prev) np depth' # fenceAlerts
                           else fenceAlerts)
                    in Inr (h1\<lparr>initialPositionSet := True,
                               state :=
                                 prev\<lparr>currentPosition := Some np,
                                      trackHistory := newHistory,
                                      geofences := geofences',
                                      mineZones := mineZones',
                                      isUnderground := isUnderground',
                                      alerts := slice_first 50 newAlerts,
                                      device :=
                                        (device prev)\<lparr>lastPosition := Some np,
                                                      lastSeen := now,
                                                      isOnline := True\<rparr>\<rparr>\<rparr>))))"

text \<open>
  The events of the hook that the playback and ingestion claims speak of, and the
  hook's reaction to each. The tick's update is applied whenever the event arrives: the
  source starts the interval when \<open>isPlaying\<close> holds and the index is not negative, and
  the update itself has no such test.
\<close>

datatype event =
  Start | Stop | Seek int | SetSpeed real | Tick | Position nat GeolocationPosition

fun step :: "event \<Rightarrow> useTracking \<Rightarrow> error + useTracking" where
  "step Start h = Inr (h\<lparr>state := startPlayback (state h)\<rparr>)"
| "step Stop h = Inr (h\<lparr>state := stopPlayback (state h)\<rparr>)"
| "step (Seek i) h = Inr (h\<lparr>state := setPlaybackIndex i (state h)\<rparr>)"
| "step (SetSpeed v) h = Inr (h\<lparr>state := setPlaybackSpeed v (state h)\<rparr>)"
| "step Tick h = Inr (h\<lparr>state := playbackTick (state h)\<rparr>)"
| "step (Position now position) h = handlePosition now position h"

fun run :: "event list \<Rightarrow> useTracking \<Rightarrow> error + useTracking" where
  "run [] h = Inr h"
| "run (e # es) h = (case step e h of Inl err \<Rightarrow> Inl err | Inr h' \<Rightarrow> run es h')"

section \<open>The realtime feed of useSupabaseTracking\<close>

text \<open>
  A row of \<open>tracking_positions\<close>. The column \<open>timestamp\<close> is an ISO string in the
  source; the model keeps the instant it denotes. \<open>raw_data\<close> is never read.
\<close>

record TrackingPosition =
  tp_id :: string
  tp_device_id :: string
  tp_latitude :: real
  tp_longitude :: real
  tp_depth :: real
  tp_altitude :: real
  tp_speed :: real
  tp_heading :: real
  tp_accuracy :: real
  tp_signal_strength :: real
  tp_zone :: "string option"
  tp_timestamp :: nat

definition toGPSPosition :: "TrackingPosition \<Rightarrow> GPSPosition" where
  "toGPSPosition pos =
     \<lparr>pos_id = tp_id pos,
      latitude = tp_latitude pos,
      longitude = tp_longitude pos,
      timestamp = tp_timestamp pos,
      speed = tp_speed pos,
      heading = tp_heading pos,
      altitude = Some (tp_altitude pos),
      accuracy = Some (tp_accuracy pos),
      battery = Some 85,
      depth = Some (tp_depth pos),
      zone = Some (case tp_zone pos of
                     None \<Rightarrow> ''Unknown''
                   | Some z \<Rightarrow> if z = [] then ''Unknown'' else z),
      signalStrength = Some (tp_signal_strength pos)\<rparr>"

text \<open>The four pieces of state the position handler of \<open>subscribeToRealtime\<close> writes.\<close>

record useSupabaseTracking =
  sb_currentPosition :: "GPSPosition option"
  sb_trackHistory :: "GPSPosition list"
  allDevicePositions :: "string \<rightharpoonup> GPSPosition"
  allDeviceTrackHistory :: "string \<rightharpoonup> GPSPosition list"

text \<open>
  The handler of an INSERT on \<open>tracking_positions\<close>; \<open>selectedDeviceId\<close> is the hook's
  option (absent or empty: every device counts as selected).
\<close>

definition onPositionInsert ::
  "string option \<Rightarrow> TrackingPosition \<Rightarrow> useSupabaseTracking \<Rightarrow> useSupabaseTracking" where
  "onPositionInsert selectedDeviceId newPos s =
     (let gpsPosition = toGPSPosition newPos;
          deviceHistory =
            (case allDeviceTrackHistory s (tp_device_id newPos) of
               None \<Rightarrow> []
             | Some hs \<Rightarrow> hs);
          selected =
            (case selectedDeviceId of
               None \<Rightarrow> True
             | Some d \<Rightarrow> d = [] \<or> tp_device_id newPos = d)
      in s\<lparr>allDevicePositions := (allDevicePositions s)(tp_device_id newPos \<mapsto> gpsPosition),
            allDeviceTrackHistory :=
              (allDeviceTrackHistory s)
                (tp_device_id newPos \<mapsto> slice_last 199 deviceHistory @ [gpsPosition]),
            sb_currentPosition :=
              (if selected then Some gpsPosition else sb_currentPosition s),
            sb_trackHistory :=
              (if selected then slice_last 199 (sb_trackHistory s) @ [gpsPosition]
               else sb_trackHistory s)\<rparr>)"

definition onPositionInserts ::
  "string option \<Rightarrow> TrackingPosition list \<Rightarrow> useSupabaseTracking \<Rightarrow> useSupabaseTracking" where
  "onPositionInserts selectedDeviceId rows s = fold (onPositionInsert selectedDeviceId) rows s"

section \<open>The mine layout (data/mineLayout3D)\<close>

datatype MineNodeType = junction | node_end | entry | shaft_entry

record Vector3D =
  vx :: real
  vy :: real
  vz :: real





section \<open>The simulator of useSupabaseTracking\<close>

datatype TrackingDeviceType = td_mining_vehicle | td_personnel | td_equipment | drill

text \<open>A row of \<open>tracking_devices\<close>, with the columns the hook reads.\<close>

record TrackingDevice =
  td_id :: string
  td_device_id :: string
  td_name :: string
  td_type :: TrackingDeviceType
  td_battery_level :: real
  td_is_online :: bool

record SimulationProgress =
  pathIndex :: nat
  progress :: real

text \<open>
  The simulator's part of the hook: the flag \<open>isSimulating\<close>, the interval handle
  held by \<open>simulationRef\<close> (none when it is \<open>null\<close>), the intervals that are
  running, each with the device paths its callback closes over, the handle the next
  \<open>setInterval\<close> returns (handles are taken to be truthy, as a timeout object or a
  positive number is), and the map \<open>simulationStateRef\<close>.
\<close>

datatype PathType = path1 | path2 | path3

record PathPoint =
  nodeId :: string
  pt_lat :: real
  pt_lng :: real
  pt_depth :: real
  pt_position :: Vector3D

record DevicePath =
  dp_deviceId :: string
  dp_device :: TrackingDevice
  dp_path :: "PathPoint list"
  dp_pathType :: PathType











text \<open>
  The body of the loop of \<open>simulatePosition\<close> for one device that has a progress
  state, up to the insert it awaits: the state it leaves, and whether it reaches the
  insert (it does not when it takes a \<open>continue\<close>). The segment length divides the
  distance moved; on a segment of length 0 the quotient is infinite in the source, so
  the progress reaches 1. The row that is inserted, and the device row that is updated
  after it, are effects outside the hook and are not part of the model.
\<close>

definition simulateDevice :: "PathPoint list \<Rightarrow> SimulationProgress \<Rightarrow> SimulationProgress \<times> bool" where
  "simulateDevice path st =
     (if length path = 0 then (st, False)
      else
        (case (js_index path (int (pathIndex st)),
               js_index path (int ((pathIndex st + 1) mod length path))) of
           (Some currentPoint, Some nextPoint) \<Rightarrow>
             (let dx = vx (pt_position nextPoint) - vx (pt_position currentPoint);
                  dy = vy (pt_position nextPoint) - vy (pt_position currentPoint);
                  dz = vz (pt_position nextPoint) - vz (pt_position currentPoint);
                  distance = sqrt (dx * dx + dy * dy + dz * dz);
                  moveDistance = (8 / 3600) * 2
              in if distance = 0 \<or> progress st + moveDistance / distance \<ge> 1
                 then (let st' = \<lparr>pathIndex = (pathIndex st + 1) mod length path,
                                   progress = 0\<rparr>
                       in case js_index path (int (pathIndex st')) of
                            None \<Rightarrow> (st', False)
                          | Some targetPoint \<Rightarrow> (st', True))
                 else (st\<lparr>progress := progress st + moveDistance / distance\<rparr>, True))
         | _ \<Rightarrow> (st, False)))"


text \<open>
  \<open>simulatePosition\<close> run to its end, each insert answered before anything else
  happens: what one firing of the interval does to the progress states.
\<close>

fun simulatePosition ::
  "DevicePath list \<Rightarrow> (string \<rightharpoonup> SimulationProgress) \<Rightarrow> (string \<rightharpoonup> SimulationProgress)" where
  "simulatePosition [] m = m"
| "simulatePosition (dp # dps) m =
     (case m (dp_deviceId dp) of
        None \<Rightarrow> simulatePosition dps m
      | Some st \<Rightarrow>
          simulatePosition dps (m(dp_deviceId dp \<mapsto> fst (simulateDevice (dp_path dp) st))))"



section \<open>Auxiliary notions for the statements\<close>

text \<open>Every zone has a reference coordinate, so \<open>determineZone\<close> does not throw.\<close>

definition zonesOk :: "MineZone list \<Rightarrow> bool" where
  "zonesOk zs = list_all (\<lambda>z. coordinates z \<noteq> []) zs"

text \<open>
  The zones the next fix will be resolved against have a reference coordinate: before
  the first fix they are created afresh, afterwards they are the state's.
\<close>

definition hookOk :: "useTracking \<Rightarrow> bool" where
  "hookOk h = (if initialPositionSet h then zonesOk (mineZones (state h)) else True)"

text \<open>Every seek of a run of events names an index of the history it meets.\<close>

fun seeksInRange :: "event list \<Rightarrow> useTracking \<Rightarrow> bool" where
  "seeksInRange [] h = True"
| "seeksInRange (e # es) h =
     ((case e of
         Seek i \<Rightarrow> 0 \<le> i \<and> i < int (length (trackHistory (state h)))
       | _ \<Rightarrow> True)
      \<and> (case step e h of Inl err \<Rightarrow> True | Inr h' \<Rightarrow> seeksInRange es h'))"

text \<open>The coordinates, time and accuracy of a stored position and of a fix.\<close>

definition positionKey :: "GPSPosition \<Rightarrow> real \<times> real \<times> nat \<times> real option" where
  "positionKey p = (latitude p, longitude p, timestamp p, accuracy p)"

definition fixKey :: "GeolocationPosition \<Rightarrow> real \<times> real \<times> nat \<times> real option" where
  "fixKey f =
     (coords_latitude f, coords_longitude f, position_timestamp f, Some (coords_accuracy f))"

text \<open>A fix at latitude and longitude 0 with a given accuracy, at time 0.\<close>

definition fixAt :: "real \<Rightarrow> real \<Rightarrow> real \<Rightarrow> GeolocationPosition" where
  "fixAt la lo acc =
     \<lparr>coords_latitude = la, coords_longitude = lo, coords_accuracy = acc,
      coords_speed = None, coords_heading = None, coords_altitude = None,
      position_timestamp = 0\<rparr>"

text \<open>The playback cursor names an element of the history.\<close>

definition cursorInRange :: "TrackingState \<Rightarrow> bool" where
  "cursorInRange s = (0 \<le> playbackIndex s \<and> playbackIndex s < int (length (trackHistory s)))"




text \<open>A row of the position table for the drill, and the feed's state before any row.\<close>

definition sampleRow :: TrackingPosition where
  "sampleRow =
     \<lparr>tp_id = ''row-1'', tp_device_id = ''dev-1'', tp_latitude = 0, tp_longitude = 0,
      tp_depth = 30, tp_altitude = - 30, tp_speed = 8, tp_heading = 0, tp_accuracy = 6.5,
      tp_signal_strength = 88, tp_zone = Some ''Main Shaft'', tp_timestamp = 0\<rparr>"

definition initialFeed :: useSupabaseTracking where
  "initialFeed =
     \<lparr>sb_currentPosition = None, sb_trackHistory = [], allDevicePositions = Map.empty,
      allDeviceTrackHistory = Map.empty\<rparr>"

section \<open>Facts about ingestion and runs\<close>

lemma determineZone_ok: "zonesOk zs \<Longrightarrow> \<exists>z. determineZone la lo zs = Inr z"
  by (induction zs) (auto simp: zonesOk_def split: list.splits)

lemma zonesOk_create: "zonesOk (createMineZones la lo)"
  by (simp add: zonesOk_def createMineZones_def)

lemma zonesFor_ok:
  "hookOk h \<Longrightarrow> zonesOk (if \<not> initialPositionSet h then createMineZones la lo else mineZones (state h))"
  by (simp add: hookOk_def zonesOk_create)

lemma handlePosition_playing:
  "isPlaying (state h) \<Longrightarrow> handlePosition now position h = Inr (h\<lparr>isLocating := False, locationError := None\<rparr>)"
  by (simp add: handlePosition_def Let_def)

lemma checkFence_append:
  "checkFence now dev lastPos np d f acc = checkFence now dev lastPos np d f [] @ acc"
  by (simp add: checkFence_def Let_def split: option.splits)

lemma fold_checkFence:
  "fold (checkFence now dev lastPos np d) fs acc
     = concat (rev (map (\<lambda>f. checkFence now dev lastPos np d f []) fs)) @ acc"
proof (induction fs arbitrary: acc)
  case Nil
  then show ?case by simp
next
  case (Cons f fs)
  show ?case
    by (simp add: Cons.IH [of "checkFence now dev lastPos np d f acc"])
       (rule checkFence_append)
qed

text \<open>What a fix does when playback is off.\<close>

lemma handlePosition_live:
  assumes "\<not> isPlaying (state h)" "hookOk h"
  shows "\<exists>h' np.
     handlePosition now position h = Inr h' \<and>
     hookOk h' \<and> initialPositionSet h' \<and>
     isPlaying (state h') = isPlaying (state h) \<and>
     playbackIndex (state h') = playbackIndex (state h) \<and>
     currentPosition (state h') = Some np \<and>
     trackHistory (state h') = slice_last 199 (trackHistory (state h)) @ [np] \<and>
     positionKey np = fixKey position \<and>
     depth np = Some (calculateDepth now (coords_accuracy position) (trackHistory (state h))) \<and>
     signalStrength np =
       Some (calculateSignalStrength (coords_accuracy position)
              (calculateDepth now (coords_accuracy position) (trackHistory (state h)))) \<and>
     geofences (state h') =
       (if \<not> initialPositionSet h
        then createMineGeofences (coords_latitude position) (coords_longitude position)
        else geofences (state h)) \<and>
     device (state h') = (device (state h))\<lparr>lastPosition := Some np, lastSeen := now, isOnline := True\<rparr> \<and>
     alerts (state h') =
       slice_first 50
         ((if signalLost (the (signalStrength np)) (currentPosition (state h))
           then [signalAlert now (device (state h)) np (the (depth np))] else [])
          @ concat (rev (map (\<lambda>f. checkFence now (device (state h)) (currentPosition (state h))
                                   np (the (depth np)) f [])
                          (geofences (state h'))))
          @ alerts (state h))"
proof -
  from determineZone_ok[OF zonesFor_ok[OF assms(2)]]
  obtain z where z: "determineZone (coords_latitude position) (coords_longitude position)
               (if \<not> initialPositionSet h
                then createMineZones (coords_latitude position) (coords_longitude position)
                else mineZones (state h)) = Inr z" by blast
  define d where "d = calculateDepth now (coords_accuracy position) (trackHistory (state h))"
  define sg where "sg = calculateSignalStrength (coords_accuracy position) d"
  define np where "np = newPosition now position d z sg"
  have np: "positionKey np = fixKey position" "depth np = Some d" "signalStrength np = Some sg"
    by (simp_all add: np_def newPosition_def positionKey_def fixKey_def)
  show ?thesis
    using assms z np
    by (simp add: handlePosition_def Let_def fold_checkFence hookOk_def zonesOk_create
        flip: d_def sg_def np_def)
qed


lemma run_append:
  "run (es @ es') h = (case run es h of Inl e \<Rightarrow> Inl e | Inr h' \<Rightarrow> run es' h')"
  by (induction es arbitrary: h) (auto split: sum.splits)

lemma slice_last_snoc: "slice_last 199 xs @ [x] = slice_last 200 (xs @ [x])"
  by (simp add: slice_last_def)

lemma slice_last_map: "slice_last n (map f xs) = map f (slice_last n xs)"
  by (simp add: slice_last_def drop_map)

lemma slice_last_append:
  "slice_last n (slice_last n xs @ ys) = slice_last n (xs @ ys)"
proof -
  have "length xs + length ys - (length xs - n + n) + (length xs - n)
          = length xs + length ys - n"
    by arith
  then show ?thesis
    by (simp add: slice_last_def)
qed

lemma length_slice_last: "length (slice_last n xs) = min n (length xs)"
  by (simp add: slice_last_def)

lemma initialHook_ok: "hookOk initialHook" "\<not> isPlaying (state initialHook)"
  "trackHistory (state initialHook) = []" "playbackIndex (state initialHook) = - 1"
  "currentPosition (state initialHook) = None" "alerts (state initialHook) = []"
  "\<not> initialPositionSet initialHook"
  by (simp_all add: hookOk_def initialHook_def initialState_def)

text \<open>A run of fixes, playback off.\<close>

lemma run_fixes:
  assumes "\<not> isPlaying (state h)" "hookOk h"
  shows "\<exists>h'. run (map (\<lambda>(now, f). Position now f) fs) h = Inr h' \<and>
           hookOk h' \<and> \<not> isPlaying (state h') \<and>
           playbackIndex (state h') = playbackIndex (state h) \<and>
           map positionKey (trackHistory (state h')) =
             (if fs = [] then map positionKey (trackHistory (state h))
              else slice_last 200 (map positionKey (trackHistory (state h)) @ map (\<lambda>(now, f). fixKey f) fs))"
  using assms
proof (induction fs arbitrary: h)
  case Nil
  then show ?case by simp
next
  case (Cons nf fs)
  obtain now f where nf: "nf = (now, f)" by (cases nf)
  from handlePosition_live[OF Cons.prems, of now f]
  obtain h1 np where h1: "handlePosition now f h = Inr h1" "hookOk h1"
      "isPlaying (state h1) = isPlaying (state h)"
      "playbackIndex (state h1) = playbackIndex (state h)"
      "trackHistory (state h1) = slice_last 199 (trackHistory (state h)) @ [np]"
      "positionKey np = fixKey f"
    by blast
  have np1: "\<not> isPlaying (state h1)" using h1(3) Cons.prems(1) by simp
  from Cons.IH[OF np1 h1(2)]
  obtain h' where h': "run (map (\<lambda>(now, f). Position now f) fs) h1 = Inr h'"
      "hookOk h'" "\<not> isPlaying (state h')" "playbackIndex (state h') = playbackIndex (state h1)"
      "map positionKey (trackHistory (state h')) =
             (if fs = [] then map positionKey (trackHistory (state h1))
              else slice_last 200 (map positionKey (trackHistory (state h1)) @ map (\<lambda>(now, f). fixKey f) fs))"
    by blast
  have "map positionKey (trackHistory (state h1))
      = map positionKey (slice_last 200 (trackHistory (state h) @ [np]))"
    by (simp add: h1(5) slice_last_snoc)
  also have "\<dots> = slice_last 200 (map positionKey (trackHistory (state h) @ [np]))"
    by (rule slice_last_map [symmetric])
  also have "\<dots> = slice_last 200 (map positionKey (trackHistory (state h)) @ [fixKey f])"
    by (simp add: h1(6))
  finally have hist1: "map positionKey (trackHistory (state h1))
      = slice_last 200 (map positionKey (trackHistory (state h)) @ [fixKey f])" .
  have "map positionKey (trackHistory (state h')) =
      slice_last 200 (map positionKey (trackHistory (state h)) @ fixKey f # map (\<lambda>(now, f). fixKey f) fs)"
  proof (cases "fs = []")
    case True
    then show ?thesis using h'(5) hist1 by simp
  next
    case False
    then show ?thesis using h'(5) hist1 slice_last_append[of 200 "map positionKey (trackHistory (state h)) @ [fixKey f]" "map (\<lambda>(now, f). fixKey f) fs"]
      by simp
  qed
  then show ?case
    using h' h1 by (simp add: nf)
qed



lemma step_playback_simps:
  "hookOk (h\<lparr>state := startPlayback (state h)\<rparr>) = hookOk h"
  "hookOk (h\<lparr>state := stopPlayback (state h)\<rparr>) = hookOk h"
  "hookOk (h\<lparr>state := setPlaybackIndex i (state h)\<rparr>) = hookOk h"
  "hookOk (h\<lparr>state := setPlaybackSpeed v (state h)\<rparr>) = hookOk h"
  "hookOk (h\<lparr>state := playbackTick (state h)\<rparr>) = hookOk h"
  by (simp_all add: hookOk_def startPlayback_def stopPlayback_def setPlaybackIndex_def
      setPlaybackSpeed_def playbackTick_def Let_def)

lemma hookOk_flags: "hookOk (h\<lparr>isLocating := a, locationError := b\<rparr>) = hookOk h"
  by (simp add: hookOk_def)

lemma step_inv:
  assumes "hookOk h"
    and "isPlaying (state h) \<and> trackHistory (state h) \<noteq> [] \<longrightarrow> cursorInRange (state h)"
    and "case e of Seek i \<Rightarrow> 0 \<le> i \<and> i < int (length (trackHistory (state h))) | _ \<Rightarrow> True"
  shows "\<exists>h'. step e h = Inr h' \<and> hookOk h' \<and>
           (isPlaying (state h') \<and> trackHistory (state h') \<noteq> [] \<longrightarrow> cursorInRange (state h'))"
proof (cases e)
  case Start
  then show ?thesis using assms
    by (simp add: step_playback_simps) (simp add: startPlayback_def cursorInRange_def)
next
  case Stop
  then show ?thesis using assms
    by (simp add: step_playback_simps) (simp add: stopPlayback_def)
next
  case (Seek i)
  then show ?thesis using assms
    by (simp add: step_playback_simps) (simp add: setPlaybackIndex_def cursorInRange_def Let_def)
next
  case (SetSpeed v)
  then show ?thesis using assms
    by (simp add: step_playback_simps) (simp add: setPlaybackSpeed_def cursorInRange_def)
next
  case Tick
  then show ?thesis using assms
    by (simp add: step_playback_simps) (auto simp add: playbackTick_def cursorInRange_def Let_def)
next
  case (Position now f)
  show ?thesis
  proof (cases "isPlaying (state h)")
    case True
    then show ?thesis using assms Position
      by (simp add: handlePosition_playing hookOk_flags)
  next
    case False
    from handlePosition_live[OF False assms(1), of now f]
    obtain h' where "handlePosition now f h = Inr h'" "hookOk h'"
      "isPlaying (state h') = isPlaying (state h)" by blast
    then show ?thesis using False Position by simp
  qed
qed

lemma run_inv:
  assumes "hookOk h"
    and "isPlaying (state h) \<and> trackHistory (state h) \<noteq> [] \<longrightarrow> cursorInRange (state h)"
    and "seeksInRange es h"
  shows "\<exists>h'. run es h = Inr h' \<and> hookOk h' \<and>
           (isPlaying (state h') \<and> trackHistory (state h') \<noteq> [] \<longrightarrow> cursorInRange (state h'))"
  using assms
proof (induction es arbitrary: h)
  case Nil
  then show ?case by simp
next
  case (Cons e es)
  from Cons.prems(3) have sk: "case e of Seek i \<Rightarrow> 0 \<le> i \<and> i < int (length (trackHistory (state h))) | _ \<Rightarrow> True"
    by simp
  from step_inv[OF Cons.prems(1,2) sk]
  obtain h1 where h1: "step e h = Inr h1" "hookOk h1"
    "isPlaying (state h1) \<and> trackHistory (state h1) \<noteq> [] \<longrightarrow> cursorInRange (state h1)"
    by blast
  from Cons.prems(3) h1(1) have "seeksInRange es h1" by simp
  from Cons.IH[OF h1(2,3) this] show ?case by (simp add: h1(1))
qed

section \<open>Playback: the cursor while playing\<close>

text \<open>
  Claim C5, as amended. In every state reached from the initial state by start, stop,
  seek, speed change, playback tick and live fixes, where every seek names an index of
  the history it meets: the run does not fail, and if playback is on and the history is
  not empty, the cursor is at least 0 and less than the length of the history. (On an
  empty history \<open>startPlayback\<close> turns playback on with cursor 0, and a seek
  stores whatever index it is given.)
\<close>

theorem playing_cursor_in_range:
  assumes "seeksInRange es initialHook"
  shows "\<exists>h. run es initialHook = Inr h \<and>
           (isPlaying (state h) \<and> trackHistory (state h) \<noteq> [] \<longrightarrow> cursorInRange (state h))"
proof -
  have "isPlaying (state initialHook) \<and> trackHistory (state initialHook) \<noteq> []
          \<longrightarrow> cursorInRange (state initialHook)"
    by (simp add: initialHook_ok)
  from run_inv[OF initialHook_ok(1) this assms] show ?thesis by blast
qed

text \<open>
  The claim as first stated fails at the first event: starting playback on the initial
  state, whose history is empty, gives a playing state with cursor 0 and length 0.
\<close>

theorem playing_cursor_counterexample:
  "run [Start] initialHook = Inr (initialHook\<lparr>state := startPlayback initialState\<rparr>)
   \<and> isPlaying (startPlayback initialState)
   \<and> \<not> cursorInRange (startPlayback initialState)"
  by (simp add: initialHook_def initialState_def startPlayback_def cursorInRange_def)

text \<open>Fixes applied to the initial hook.\<close>

lemma fixes_from_initial:
  "\<exists>h'. run (map (\<lambda>(now, f). Position now f) fs) initialHook = Inr h' \<and>
           hookOk h' \<and> \<not> isPlaying (state h') \<and> playbackIndex (state h') = - 1 \<and>
           length (trackHistory (state h')) = min 200 (length fs)"
proof -
  from run_fixes[OF initialHook_ok(2,1), of fs]
  obtain h' where h': "run (map (\<lambda>(now, f). Position now f) fs) initialHook = Inr h'"
    "hookOk h'" "\<not> isPlaying (state h')" "playbackIndex (state h') = playbackIndex (state initialHook)"
    "map positionKey (trackHistory (state h')) =
             (if fs = [] then map positionKey (trackHistory (state initialHook))
              else slice_last 200 (map positionKey (trackHistory (state initialHook)) @ map (\<lambda>(now, f). fixKey f) fs))"
    by blast
  have "length (trackHistory (state h')) = length (map positionKey (trackHistory (state h')))"
    by simp
  also have "\<dots> = min 200 (length fs)"
    unfolding h'(5) by (simp add: initialHook_ok length_slice_last)
  finally show ?thesis using h'(1-4) by (simp add: initialHook_ok)
qed

theorem playing_cursor_witness:
  "seeksInRange [Position 0 (fixAt 0 0 10), Seek 0, Start] initialHook \<and>
   (\<exists>h. run [Position 0 (fixAt 0 0 10), Seek 0, Start] initialHook = Inr h \<and>
        isPlaying (state h) \<and> trackHistory (state h) \<noteq> [] \<and> cursorInRange (state h))"
proof -
  from fixes_from_initial[of "[(0, fixAt 0 0 10)]"]
  obtain h1 where h1: "handlePosition 0 (fixAt 0 0 10) initialHook = Inr h1"
    "length (trackHistory (state h1)) = 1" "\<not> isPlaying (state h1)"
    by (auto split: sum.splits)
  have sk: "seeksInRange [Position 0 (fixAt 0 0 10), Seek 0, Start] initialHook"
    by (simp add: h1)
  have r: "run [Position 0 (fixAt 0 0 10), Seek 0, Start] initialHook
     = Inr (h1\<lparr>state := startPlayback (setPlaybackIndex 0 (state h1))\<rparr>)"
    by (simp add: h1)
  have "isPlaying (startPlayback (setPlaybackIndex 0 (state h1)))"
       "trackHistory (startPlayback (setPlaybackIndex 0 (state h1))) \<noteq> []"
    using h1(2) by (auto simp add: startPlayback_def setPlaybackIndex_def Let_def)
  with playing_cursor_in_range[OF sk] r sk show ?thesis
    by simp
qed

section \<open>Ingestion while playback is on\<close>

text \<open>
  Claim C1, as amended. While playback is on (\<open>isPlaying\<close> is true), a live
  position event leaves the tracking state as it is: the history is not extended, the
  current position, the cursor and the alerts stay, and so does the ref
  \<open>initialPositionSet\<close>; only the flags \<open>isLocating\<close> and \<open>locationError\<close>
  are cleared.
\<close>

theorem fix_while_playing_changes_nothing:
  assumes "isPlaying (state h)"
  shows "\<exists>h'. step (Position now position) h = Inr h' \<and> state h' = state h \<and>
           trackHistory (state h') = trackHistory (state h) \<and>
           currentPosition (state h') = currentPosition (state h) \<and>
           initialPositionSet h' = initialPositionSet h \<and>
           \<not> isLocating h' \<and> locationError h' = None"
  using assms by (simp add: handlePosition_playing)

text \<open>Short runs of fixes from the initial hook, for the examples below.\<close>

lemma two_fixes_then_ops:
  "\<exists>h2. run [Position 0 f, Position 0 g] initialHook = Inr h2 \<and> hookOk h2 \<and>
      \<not> isPlaying (state h2) \<and> playbackIndex (state h2) = - 1 \<and>
      length (trackHistory (state h2)) = 2"
  using fixes_from_initial[of "[(0, f), (0, g)]"] by (simp add: numeral_2_eq_2)

lemma one_fix_then_ops:
  "\<exists>h1. run [Position 0 f] initialHook = Inr h1 \<and> hookOk h1 \<and>
      \<not> isPlaying (state h1) \<and> playbackIndex (state h1) = - 1 \<and>
      length (trackHistory (state h1)) = 1"
  using fixes_from_initial[of "[(0, f)]"] by simp

lemma three_fixes_then_ops:
  "\<exists>h3. run [Position 0 f, Position 0 g, Position 0 k] initialHook = Inr h3 \<and> hookOk h3 \<and>
      \<not> isPlaying (state h3) \<and> playbackIndex (state h3) = - 1 \<and>
      length (trackHistory (state h3)) = 3"
  using fixes_from_initial[of "[(0, f), (0, g), (0, k)]"] by (simp add: numeral_3_eq_3)

theorem fix_while_playing_witness:
  "\<exists>h. run [Position 0 (fixAt 0 0 10), Start] initialHook = Inr h \<and> isPlaying (state h) \<and>
     (\<exists>h'. step (Position 1000 (fixAt 0 0 10)) h = Inr h' \<and> state h' = state h)"
proof -
  from one_fix_then_ops[of "fixAt 0 0 10"]
  obtain h1 where h1: "run [Position 0 (fixAt 0 0 10)] initialHook = Inr h1" by blast
  have r: "run ([Position 0 (fixAt 0 0 10)] @ [Start]) initialHook
            = Inr (h1\<lparr>state := startPlayback (state h1)\<rparr>)"
    unfolding run_append h1 by simp
  have p: "isPlaying (state (h1\<lparr>state := startPlayback (state h1)\<rparr>))"
    by (simp add: startPlayback_def)
  from fix_while_playing_changes_nothing[OF p, of 1000 "fixAt 0 0 10"] r p
  show ?thesis by auto
qed

text \<open>
  The claim as first stated fails: a fix, start, then a second fix. The history has one
  element before the second fix and one element after it.
\<close>

theorem fix_while_playing_counterexample:
  "\<not> isl (run [Position 0 (fixAt 0 0 10), Start] initialHook) \<and>
   isPlaying (state (projr (run [Position 0 (fixAt 0 0 10), Start] initialHook))) \<and>
   length (trackHistory (state (projr (run [Position 0 (fixAt 0 0 10), Start] initialHook)))) = 1 \<and>
   \<not> isl (run [Position 0 (fixAt 0 0 10), Start, Position 1000 (fixAt 0 0 10)] initialHook) \<and>
   length (trackHistory (state (projr
      (run [Position 0 (fixAt 0 0 10), Start, Position 1000 (fixAt 0 0 10)] initialHook)))) = 1"
proof -
  from one_fix_then_ops[of "fixAt 0 0 10"]
  obtain h1 where h1: "run [Position 0 (fixAt 0 0 10)] initialHook = Inr h1"
    "length (trackHistory (state h1)) = 1" by blast
  have r: "run ([Position 0 (fixAt 0 0 10)] @ [Start]) initialHook
            = Inr (h1\<lparr>state := startPlayback (state h1)\<rparr>)"
    unfolding run_append h1 by simp
  have r2: "run ([Position 0 (fixAt 0 0 10)] @ [Start, Position 1000 (fixAt 0 0 10)]) initialHook
            = Inr (h1\<lparr>state := startPlayback (state h1), isLocating := False, locationError := None\<rparr>)"
    unfolding run_append h1 by (simp add: handlePosition_playing startPlayback_def)
  show ?thesis using r r2 h1(2) by (simp add: startPlayback_def)
qed

section \<open>Playback: stop, start and seek\<close>

text \<open>
  Claim C2, as amended. In every state, \<open>stopPlayback\<close> turns playback off and sets
  the cursor to -1 (live), whether the history is empty or not; the current position
  becomes the newest element of the history (none when it is empty); history, alerts
  and speed stay.
\<close>

theorem stop_returns_to_live:
  "isPlaying (stopPlayback s) = False \<and>
   playbackIndex (stopPlayback s) = - 1 \<and>
   trackHistory (stopPlayback s) = trackHistory s \<and>
   currentPosition (stopPlayback s) =
     (if trackHistory s = [] then None else Some (last (trackHistory s))) \<and>
   alerts (stopPlayback s) = alerts s \<and>
   playbackSpeed (stopPlayback s) = playbackSpeed s"
  by (cases "trackHistory s" rule: rev_cases)
     (simp_all add: stopPlayback_def js_index_def nth_append)

text \<open>
  The claim as first stated fails: two fixes, start and one tick give a playing state
  with cursor 1 over a history of length 2; stopping puts the cursor at -1, not 1.
\<close>

theorem stop_counterexample:
  "\<not> isl (run [Position 0 (fixAt 0 0 10), Position 0 (fixAt 0 0 10), Start, Tick] initialHook) \<and>
   isPlaying (state (projr (run [Position 0 (fixAt 0 0 10), Position 0 (fixAt 0 0 10), Start, Tick] initialHook))) \<and>
   playbackIndex (state (projr (run [Position 0 (fixAt 0 0 10), Position 0 (fixAt 0 0 10), Start, Tick] initialHook))) = 1 \<and>
   length (trackHistory (state (projr (run [Position 0 (fixAt 0 0 10), Position 0 (fixAt 0 0 10), Start, Tick] initialHook)))) = 2 \<and>
   playbackIndex (stopPlayback (state (projr (run [Position 0 (fixAt 0 0 10), Position 0 (fixAt 0 0 10), Start, Tick] initialHook)))) = - 1"
proof -
  from two_fixes_then_ops[of "fixAt 0 0 10" "fixAt 0 0 10"]
  obtain h2 where h2: "run [Position 0 (fixAt 0 0 10), Position 0 (fixAt 0 0 10)] initialHook = Inr h2"
    "length (trackHistory (state h2)) = 2" by blast
  have r: "run ([Position 0 (fixAt 0 0 10), Position 0 (fixAt 0 0 10)] @ [Start, Tick]) initialHook
            = Inr (h2\<lparr>state := playbackTick (startPlayback (state h2))\<rparr>)"
    unfolding run_append h2 by simp
  show ?thesis using r h2(2)
    by (simp add: startPlayback_def playbackTick_def stopPlayback_def Let_def)
qed

text \<open>
  Claim C3, as amended. In every state, \<open>startPlayback\<close> turns playback on and sets
  the cursor to 0, whatever the cursor was; history, current position, alerts and speed
  stay.
\<close>

theorem start_restarts_from_zero:
  "isPlaying (startPlayback s) \<and> playbackIndex (startPlayback s) = 0 \<and>
   trackHistory (startPlayback s) = trackHistory s \<and>
   currentPosition (startPlayback s) = currentPosition s \<and>
   alerts (startPlayback s) = alerts s \<and>
   playbackSpeed (startPlayback s) = playbackSpeed s"
  by (simp add: startPlayback_def)

text \<open>
  The claim as first stated fails: three fixes and a seek to 2 give a state that is not
  playing, with cursor 2 over a history of length 3; starting puts the cursor at 0.
\<close>

theorem start_counterexample:
  "\<not> isl (run [Position 0 (fixAt 0 0 10), Position 0 (fixAt 0 0 10), Position 0 (fixAt 0 0 10), Seek 2] initialHook) \<and>
   \<not> isPlaying (state (projr (run [Position 0 (fixAt 0 0 10), Position 0 (fixAt 0 0 10), Position 0 (fixAt 0 0 10), Seek 2] initialHook))) \<and>
   playbackIndex (state (projr (run [Position 0 (fixAt 0 0 10), Position 0 (fixAt 0 0 10), Position 0 (fixAt 0 0 10), Seek 2] initialHook))) = 2 \<and>
   length (trackHistory (state (projr (run [Position 0 (fixAt 0 0 10), Position 0 (fixAt 0 0 10), Position 0 (fixAt 0 0 10), Seek 2] initialHook)))) = 3 \<and>
   playbackIndex (startPlayback (state (projr (run [Position 0 (fixAt 0 0 10), Position 0 (fixAt 0 0 10), Position 0 (fixAt 0 0 10), Seek 2] initialHook)))) = 0"
proof -
  from three_fixes_then_ops[of "fixAt 0 0 10" "fixAt 0 0 10" "fixAt 0 0 10"]
  obtain h3 where h3: "run [Position 0 (fixAt 0 0 10), Position 0 (fixAt 0 0 10), Position 0 (fixAt 0 0 10)] initialHook = Inr h3"
    "length (trackHistory (state h3)) = 3" "\<not> isPlaying (state h3)" by blast
  have r: "run ([Position 0 (fixAt 0 0 10), Position 0 (fixAt 0 0 10), Position 0 (fixAt 0 0 10)] @ [Seek 2]) initialHook
            = Inr (h3\<lparr>state := setPlaybackIndex 2 (state h3)\<rparr>)"
    unfolding run_append h3 by simp
  show ?thesis using r h3(2,3)
    by (simp add: startPlayback_def setPlaybackIndex_def Let_def)
qed

text \<open>
  Claim C4, as amended. For every history and every integer index,
  \<open>setPlaybackIndex\<close> stores the index as given, without clamping, and leaves the
  playing flag and the history as they are; the current position becomes the element at
  the index when the index is at least 0 and less than the length, and stays otherwise.
\<close>

theorem seek_stores_index:
  "playbackIndex (setPlaybackIndex i s) = i \<and>
   isPlaying (setPlaybackIndex i s) = isPlaying s \<and>
   trackHistory (setPlaybackIndex i s) = trackHistory s \<and>
   currentPosition (setPlaybackIndex i s) =
     (if 0 \<le> i \<and> i < int (length (trackHistory s)) then Some (trackHistory s ! nat i)
      else currentPosition s)"
  by (simp add: setPlaybackIndex_def js_index_def Let_def)

text \<open>
  The claim as first stated fails: over a history of length 1, a seek to 5 leaves the
  cursor at 5 and a seek to -3 leaves it at -3.
\<close>

theorem seek_counterexample:
  "\<not> isl (run [Position 0 (fixAt 0 0 10), Seek 5] initialHook) \<and>
   length (trackHistory (state (projr (run [Position 0 (fixAt 0 0 10), Seek 5] initialHook)))) = 1 \<and>
   playbackIndex (state (projr (run [Position 0 (fixAt 0 0 10), Seek 5] initialHook))) = 5 \<and>
   playbackIndex (state (projr (run [Position 0 (fixAt 0 0 10), Seek (- 3)] initialHook))) = - 3"
proof -
  from one_fix_then_ops[of "fixAt 0 0 10"]
  obtain h1 where h1: "run [Position 0 (fixAt 0 0 10)] initialHook = Inr h1"
    "length (trackHistory (state h1)) = 1" by blast
  have r: "run ([Position 0 (fixAt 0 0 10)] @ [Seek i]) initialHook
            = Inr (h1\<lparr>state := setPlaybackIndex i (state h1)\<rparr>)" for i
    unfolding run_append h1 by simp
  show ?thesis using r[of 5] r[of "- 3"] h1(2)
    by (simp add: setPlaybackIndex_def Let_def)
qed

section \<open>Signal strength of ingested positions\<close>

lemma js_round_le: "x \<le> of_int n \<Longrightarrow> js_round x \<le> of_int n"
  unfolding js_round_def by (simp add: floor_le_iff)

lemma js_round_nonneg: "0 \<le> x \<Longrightarrow> 0 \<le> js_round x"
  unfolding js_round_def by simp

lemma calculateDepth_nonneg: "0 \<le> calculateDepth now acc history"
proof (cases "acc > 50")
  case True
  define v where "v = sin (real now / 10000)"
  have "- 1 \<le> v" unfolding v_def by (rule sin_ge_minus_one)
  then have "0 \<le> min (acc / 2) 200 + v * 20"
    using True by (cases "acc / 2 \<le> 200") (simp_all add: min_def)
  then show ?thesis using True
    by (simp add: calculateDepth_def Let_def js_round_nonneg v_def)
next
  case False
  then show ?thesis by (simp add: calculateDepth_def)
qed

lemma calculateSignalStrength_ge: "5 \<le> calculateSignalStrength acc d"
  by (simp add: calculateSignalStrength_def Let_def)

lemma calculateSignalStrength_le:
  assumes a: "0 \<le> acc" "0 \<le> d"
  shows "calculateSignalStrength acc d \<le> 100"
proof -
  from a have "max 0 (100 - acc) - d * 0.3 \<le> of_int 100"
    by (simp add: max_def)
  then have "js_round (max 0 (100 - acc) - d * 0.3) \<le> of_int 100"
    by (rule js_round_le)
  then show ?thesis
    by (simp add: calculateSignalStrength_def Let_def)
qed

text \<open>
  Claim C10. For every accuracy and depth that are not negative, the computed signal
  strength is at least 5 and at most 100; and every position the live ingestion path
  creates from a fix whose accuracy is not negative (the history's newest element and
  the current position after the fix) has a signal strength between 5 and 100.
\<close>

theorem live_signal_strength_range:
  "(0 \<le> acc \<and> 0 \<le> d \<longrightarrow>
      5 \<le> calculateSignalStrength acc d \<and> calculateSignalStrength acc d \<le> 100) \<and>
   (\<not> isPlaying (state h) \<and> hookOk h \<and> 0 \<le> coords_accuracy position \<longrightarrow>
      (\<exists>h' np sg. handlePosition now position h = Inr h' \<and>
         currentPosition (state h') = Some np \<and>
         last (trackHistory (state h')) = np \<and>
         signalStrength np = Some sg \<and> 5 \<le> sg \<and> sg \<le> 100))"
proof (intro conjI impI)
  assume "0 \<le> acc \<and> 0 \<le> d"
  then show "5 \<le> calculateSignalStrength acc d" "calculateSignalStrength acc d \<le> 100"
    by (simp_all add: calculateSignalStrength_ge calculateSignalStrength_le)
next
  assume a: "\<not> isPlaying (state h) \<and> hookOk h \<and> 0 \<le> coords_accuracy position"
  from handlePosition_live[of h now position] a
  obtain h' np where h': "handlePosition now position h = Inr h'"
     "currentPosition (state h') = Some np"
     "trackHistory (state h') = slice_last 199 (trackHistory (state h)) @ [np]"
     "signalStrength np =
       Some (calculateSignalStrength (coords_accuracy position)
              (calculateDepth now (coords_accuracy position) (trackHistory (state h))))"
    by blast
  show "\<exists>h' np sg. handlePosition now position h = Inr h' \<and>
         currentPosition (state h') = Some np \<and>
         last (trackHistory (state h')) = np \<and>
         signalStrength np = Some sg \<and> 5 \<le> sg \<and> sg \<le> 100"
    using h' a calculateSignalStrength_le[OF _ calculateDepth_nonneg]
      calculateSignalStrength_ge
    by auto
qed

theorem live_signal_strength_witness:
  "(0::real) \<le> 71 \<and> (0::real) \<le> 36 \<and> calculateSignalStrength 71 36 = 18 \<and>
   5 \<le> calculateSignalStrength 71 36 \<and> calculateSignalStrength 71 36 \<le> 100 \<and>
   \<not> isPlaying (state initialHook) \<and> hookOk initialHook \<and>
   0 \<le> coords_accuracy (fixAt 0 0 71) \<and>
   (\<exists>h' np sg. handlePosition 0 (fixAt 0 0 71) initialHook = Inr h' \<and>
         currentPosition (state h') = Some np \<and>
         last (trackHistory (state h')) = np \<and>
         signalStrength np = Some sg \<and> 5 \<le> sg \<and> sg \<le> 100)"
proof -
  have e: "calculateSignalStrength 71 36 = 18"
    by (simp add: calculateSignalStrength_def js_round_def)
  have a: "0 \<le> coords_accuracy (fixAt 0 0 71)" by (simp add: fixAt_def)
  from live_signal_strength_range[of 71 36 initialHook "fixAt 0 0 71" 0] e a initialHook_ok(1,2)
  show ?thesis by simp
qed

section \<open>The simulator's progress state\<close>























section \<open>Bounded history\<close>

lemma slice_last_200_long:
  "length ys \<ge> 200 \<Longrightarrow> slice_last 200 (xs @ ys) = drop (length ys - 200) ys"
  by (simp add: slice_last_def)

lemma onPositionInsert_device:
  "allDeviceTrackHistory (onPositionInsert sel r s) d =
     (if tp_device_id r = d
      then Some (slice_last 200
                  ((case allDeviceTrackHistory s d of None \<Rightarrow> [] | Some hs \<Rightarrow> hs)
                   @ [toGPSPosition r]))
      else allDeviceTrackHistory s d)"
  by (simp add: onPositionInsert_def Let_def slice_last_snoc)

lemma onPositionInserts_device:
  "allDeviceTrackHistory (onPositionInserts sel rows s) d =
     (if filter (\<lambda>r. tp_device_id r = d) rows = [] then allDeviceTrackHistory s d
      else Some (slice_last 200
                  ((case allDeviceTrackHistory s d of None \<Rightarrow> [] | Some hs \<Rightarrow> hs)
                   @ map toGPSPosition (filter (\<lambda>r. tp_device_id r = d) rows))))"
  unfolding onPositionInserts_def
proof (induction rows arbitrary: s)
  case Nil
  then show ?case by simp
next
  case (Cons r rows)
  show ?case
  proof (cases "tp_device_id r = d")
    case True
    then show ?thesis
      using slice_last_append[of 200
          "(case allDeviceTrackHistory s d of None \<Rightarrow> [] | Some hs \<Rightarrow> hs) @ [toGPSPosition r]"
          "map toGPSPosition (filter (\<lambda>r. tp_device_id r = d) rows)"]
      by (simp add: Cons.IH onPositionInsert_device)
  next
    case False
    then show ?thesis
      by (simp add: Cons.IH onPositionInsert_device)
  qed
qed

lemma onPositionInsert_selected:
  "sb_trackHistory (onPositionInsert sel r s) =
     (if (case sel of None \<Rightarrow> True | Some d \<Rightarrow> d = [] \<or> tp_device_id r = d)
      then slice_last 200 (sb_trackHistory s @ [toGPSPosition r])
      else sb_trackHistory s)"
  by (simp add: onPositionInsert_def Let_def slice_last_snoc)

lemma onPositionInserts_selected:
  "sb_trackHistory (onPositionInserts sel rows s) =
     (if filter (\<lambda>r. case sel of None \<Rightarrow> True | Some d \<Rightarrow> d = [] \<or> tp_device_id r = d) rows = []
      then sb_trackHistory s
      else slice_last 200
             (sb_trackHistory s
              @ map toGPSPosition
                  (filter (\<lambda>r. case sel of None \<Rightarrow> True | Some d \<Rightarrow> d = [] \<or> tp_device_id r = d) rows)))"
  unfolding onPositionInserts_def
proof (induction rows arbitrary: s)
  case Nil
  then show ?case by simp
next
  case (Cons r rows)
  show ?case
  proof (cases "case sel of None \<Rightarrow> True | Some d \<Rightarrow> d = [] \<or> tp_device_id r = d")
    case True
    then show ?thesis
      using slice_last_append[of 200 "sb_trackHistory s @ [toGPSPosition r]"
          "map toGPSPosition
             (filter (\<lambda>r. case sel of None \<Rightarrow> True | Some d \<Rightarrow> d = [] \<or> tp_device_id r = d) rows)"]
      by (simp add: Cons.IH onPositionInsert_selected)
  next
    case False
    then show ?thesis
      by (simp add: Cons.IH onPositionInsert_selected)
  qed
qed

text \<open>
  Claim C8. A run of fixes applied with playback off does not fail and leaves a history
  of at most 200 positions (given at least one fix, or a history of at most 200 before);
  the history is then the last 200 of the old history followed by the fixes, in order;
  after more than 200 fixes it has exactly 200 positions, the most recent 200 fixes in
  order (positions are compared by coordinates, time and accuracy). The same holds of
  the history the realtime feed keeps for each device, and of the one it keeps for the
  selected device, over the inserted rows of that device.
\<close>

theorem history_bounded_most_recent:
  "(\<not> isPlaying (state h) \<and> hookOk h \<longrightarrow>
      (\<exists>h'. run (map (\<lambda>(now, f). Position now f) fs) h = Inr h' \<and>
         (fs \<noteq> [] \<or> length (trackHistory (state h)) \<le> 200
            \<longrightarrow> length (trackHistory (state h')) \<le> 200) \<and>
         (fs \<noteq> [] \<longrightarrow>
            map positionKey (trackHistory (state h')) =
              slice_last 200 (map positionKey (trackHistory (state h))
                              @ map (\<lambda>(now, f). fixKey f) fs)) \<and>
         (length fs > 200 \<longrightarrow>
            length (trackHistory (state h')) = 200 \<and>
            map positionKey (trackHistory (state h')) =
              drop (length fs - 200) (map (\<lambda>(now, f). fixKey f) fs)))) \<and>
   (filter (\<lambda>r. tp_device_id r = d) rows \<noteq> [] \<longrightarrow>
      (\<exists>hs. allDeviceTrackHistory (onPositionInserts sel rows s) d = Some hs \<and>
         length hs \<le> 200 \<and>
         hs = slice_last 200
                ((case allDeviceTrackHistory s d of None \<Rightarrow> [] | Some old \<Rightarrow> old)
                 @ map toGPSPosition (filter (\<lambda>r. tp_device_id r = d) rows)))) \<and>
   (length (filter (\<lambda>r. tp_device_id r = d) rows) > 200 \<longrightarrow>
      (\<exists>hs. allDeviceTrackHistory (onPositionInserts sel rows s) d = Some hs \<and>
         length hs = 200 \<and>
         hs = drop (length (filter (\<lambda>r. tp_device_id r = d) rows) - 200)
                (map toGPSPosition (filter (\<lambda>r. tp_device_id r = d) rows)))) \<and>
   (filter (\<lambda>r. case sel of None \<Rightarrow> True | Some d \<Rightarrow> d = [] \<or> tp_device_id r = d) rows \<noteq> [] \<longrightarrow>
      length (sb_trackHistory (onPositionInserts sel rows s)) \<le> 200 \<and>
      sb_trackHistory (onPositionInserts sel rows s) =
        slice_last 200
          (sb_trackHistory s
           @ map toGPSPosition
               (filter (\<lambda>r. case sel of None \<Rightarrow> True | Some d \<Rightarrow> d = [] \<or> tp_device_id r = d) rows))) \<and>
   (length (filter (\<lambda>r. case sel of None \<Rightarrow> True | Some d \<Rightarrow> d = [] \<or> tp_device_id r = d) rows) > 200 \<longrightarrow>
      length (sb_trackHistory (onPositionInserts sel rows s)) = 200 \<and>
      sb_trackHistory (onPositionInserts sel rows s) =
        drop (length (filter (\<lambda>r. case sel of None \<Rightarrow> True | Some d \<Rightarrow> d = [] \<or> tp_device_id r = d) rows) - 200)
          (map toGPSPosition
             (filter (\<lambda>r. case sel of None \<Rightarrow> True | Some d \<Rightarrow> d = [] \<or> tp_device_id r = d) rows)))"
proof (intro conjI impI)
  assume a: "\<not> isPlaying (state h) \<and> hookOk h"
  from run_fixes[of h fs] a
  obtain h' where h': "run (map (\<lambda>(now, f). Position now f) fs) h = Inr h'"
    "map positionKey (trackHistory (state h')) =
       (if fs = [] then map positionKey (trackHistory (state h))
        else slice_last 200 (map positionKey (trackHistory (state h))
                             @ map (\<lambda>(now, f). fixKey f) fs))"
    by blast
  have len: "length (trackHistory (state h')) = length (map positionKey (trackHistory (state h')))"
    by simp
  have 1: "fs \<noteq> [] \<or> length (trackHistory (state h)) \<le> 200
            \<longrightarrow> length (trackHistory (state h')) \<le> 200"
    unfolding len h'(2) by (simp add: length_slice_last)
  have 2: "fs \<noteq> [] \<longrightarrow>
            map positionKey (trackHistory (state h')) =
              slice_last 200 (map positionKey (trackHistory (state h))
                              @ map (\<lambda>(now, f). fixKey f) fs)"
    using h'(2) by simp
  have 3: "length fs > 200 \<longrightarrow>
            length (trackHistory (state h')) = 200 \<and>
            map positionKey (trackHistory (state h')) =
              drop (length fs - 200) (map (\<lambda>(now, f). fixKey f) fs)"
  proof
    assume l: "length fs > 200"
    then have ne: "fs \<noteq> []" by auto
    have e: "map positionKey (trackHistory (state h')) =
              drop (length fs - 200) (map (\<lambda>(now, f). fixKey f) fs)"
      using h'(2) ne l
        slice_last_200_long[of "map (\<lambda>(now, f). fixKey f) fs" "map positionKey (trackHistory (state h))"]
      by simp
    have "length (trackHistory (state h')) = 200"
      unfolding len e using l by simp
    with e show "length (trackHistory (state h')) = 200 \<and>
            map positionKey (trackHistory (state h')) =
              drop (length fs - 200) (map (\<lambda>(now, f). fixKey f) fs)" by simp
  qed
  from h'(1) 1 2 3
  show "\<exists>h'. run (map (\<lambda>(now, f). Position now f) fs) h = Inr h' \<and>
         (fs \<noteq> [] \<or> length (trackHistory (state h)) \<le> 200
            \<longrightarrow> length (trackHistory (state h')) \<le> 200) \<and>
         (fs \<noteq> [] \<longrightarrow>
            map positionKey (trackHistory (state h')) =
              slice_last 200 (map positionKey (trackHistory (state h))
                              @ map (\<lambda>(now, f). fixKey f) fs)) \<and>
         (length fs > 200 \<longrightarrow>
            length (trackHistory (state h')) = 200 \<and>
            map positionKey (trackHistory (state h')) =
              drop (length fs - 200) (map (\<lambda>(now, f). fixKey f) fs))"
    by blast
next
  assume "filter (\<lambda>r. tp_device_id r = d) rows \<noteq> []"
  then show "\<exists>hs. allDeviceTrackHistory (onPositionInserts sel rows s) d = Some hs \<and>
         length hs \<le> 200 \<and>
         hs = slice_last 200
                ((case allDeviceTrackHistory s d of None \<Rightarrow> [] | Some old \<Rightarrow> old)
                 @ map toGPSPosition (filter (\<lambda>r. tp_device_id r = d) rows))"
    by (simp add: onPositionInserts_device length_slice_last)
next
  assume l: "length (filter (\<lambda>r. tp_device_id r = d) rows) > 200"
  then have ne: "filter (\<lambda>r. tp_device_id r = d) rows \<noteq> []" by auto
  have "slice_last 200
                ((case allDeviceTrackHistory s d of None \<Rightarrow> [] | Some old \<Rightarrow> old)
                 @ map toGPSPosition (filter (\<lambda>r. tp_device_id r = d) rows))
     = drop (length (filter (\<lambda>r. tp_device_id r = d) rows) - 200)
                (map toGPSPosition (filter (\<lambda>r. tp_device_id r = d) rows))"
    using slice_last_200_long[of "map toGPSPosition (filter (\<lambda>r. tp_device_id r = d) rows)"] l
    by simp
  then show "\<exists>hs. allDeviceTrackHistory (onPositionInserts sel rows s) d = Some hs \<and>
         length hs = 200 \<and>
         hs = drop (length (filter (\<lambda>r. tp_device_id r = d) rows) - 200)
                (map toGPSPosition (filter (\<lambda>r. tp_device_id r = d) rows))"
    using ne l by (simp add: onPositionInserts_device)
next
  assume "filter (\<lambda>r. case sel of None \<Rightarrow> True | Some d \<Rightarrow> d = [] \<or> tp_device_id r = d) rows \<noteq> []"
  then show "length (sb_trackHistory (onPositionInserts sel rows s)) \<le> 200"
    "sb_trackHistory (onPositionInserts sel rows s) =
        slice_last 200
          (sb_trackHistory s
           @ map toGPSPosition
               (filter (\<lambda>r. case sel of None \<Rightarrow> True | Some d \<Rightarrow> d = [] \<or> tp_device_id r = d) rows))"
    by (simp_all add: onPositionInserts_selected length_slice_last)
next
  assume l: "length (filter (\<lambda>r. case sel of None \<Rightarrow> True | Some d \<Rightarrow> d = [] \<or> tp_device_id r = d) rows) > 200"
  then have ne: "filter (\<lambda>r. case sel of None \<Rightarrow> True | Some d \<Rightarrow> d = [] \<or> tp_device_id r = d) rows \<noteq> []"
    by auto
  have e: "sb_trackHistory (onPositionInserts sel rows s) =
        drop (length (filter (\<lambda>r. case sel of None \<Rightarrow> True | Some d \<Rightarrow> d = [] \<or> tp_device_id r = d) rows) - 200)
          (map toGPSPosition
             (filter (\<lambda>r. case sel of None \<Rightarrow> True | Some d \<Rightarrow> d = [] \<or> tp_device_id r = d) rows))"
    using slice_last_200_long[of "map toGPSPosition
             (filter (\<lambda>r. case sel of None \<Rightarrow> True | Some d \<Rightarrow> d = [] \<or> tp_device_id r = d) rows)"
           "sb_trackHistory s"] l ne
    by (simp add: onPositionInserts_selected)
  show "sb_trackHistory (onPositionInserts sel rows s) =
        drop (length (filter (\<lambda>r. case sel of None \<Rightarrow> True | Some d \<Rightarrow> d = [] \<or> tp_device_id r = d) rows) - 200)
          (map toGPSPosition
             (filter (\<lambda>r. case sel of None \<Rightarrow> True | Some d \<Rightarrow> d = [] \<or> tp_device_id r = d) rows))"
    by (rule e)
  show "length (sb_trackHistory (onPositionInserts sel rows s)) = 200"
    unfolding e using l by simp
qed

theorem history_bounded_witness:
  "\<not> isPlaying (state initialHook) \<and> hookOk initialHook \<and>
   length (replicate 201 (0 :: nat, fixAt 0 0 10)) > 200 \<and>
   (\<exists>h'. run (map (\<lambda>(now, f). Position now f) (replicate 201 (0, fixAt 0 0 10))) initialHook
           = Inr h' \<and>
         length (trackHistory (state h')) = 200 \<and>
         map positionKey (trackHistory (state h')) = replicate 200 (fixKey (fixAt 0 0 10))) \<and>
   length (filter (\<lambda>r. tp_device_id r = ''dev-1'') (replicate 201 sampleRow)) > 200 \<and>
   (\<exists>hs. allDeviceTrackHistory (onPositionInserts None (replicate 201 sampleRow) initialFeed) ''dev-1''
           = Some hs \<and> length hs = 200) \<and>
   length (sb_trackHistory (onPositionInserts None (replicate 201 sampleRow) initialFeed)) = 200"
proof -
  have f: "filter (\<lambda>r. tp_device_id r = ''dev-1'') (replicate 201 sampleRow) = replicate 201 sampleRow"
    by (simp add: sampleRow_def)
  have g: "filter (\<lambda>r. case None :: string option of None \<Rightarrow> True | Some d \<Rightarrow> d = [] \<or> tp_device_id r = d)
             (replicate 201 sampleRow) = replicate 201 sampleRow"
    by simp
  from history_bounded_most_recent[of initialHook "replicate 201 (0, fixAt 0 0 10)"
      "''dev-1''" "replicate 201 sampleRow" None initialFeed]
  show ?thesis
    unfolding f g
    by (simp add: initialHook_ok map_replicate drop_replicate initialFeed_def length_slice_last)
       blast
qed

section \<open>Alerts of a live fix\<close>

lemma checkFence_length: "length (checkFence now dev lastPos np d f []) \<le> 1"
  by (simp add: checkFence_def Let_def split: option.splits)

lemma checkFence_first_fix: "checkFence now dev None np d f [] = []"
  by (simp add: checkFence_def)

lemma checkFence_enter:
  "filter (\<lambda>a. alert_type a = geofence_enter) (checkFence now dev lastPos np d f []) =
     (if isActive f \<and> alertOnEnter f \<and>
         (case lastPos of
            None \<Rightarrow> False
          | Some lp \<Rightarrow>
              radius f < getDistance (lat (center f)) (lng (center f)) (latitude lp) (longitude lp)
              \<and> getDistance (lat (center f)) (lng (center f)) (latitude np) (longitude np)
                  \<le> radius f)
      then [enterAlert now dev f np d] else [])"
  by (auto simp add: checkFence_def Let_def enterAlert_def exitAlert_def split: option.splits)

lemma checkFence_exit:
  "filter (\<lambda>a. alert_type a = geofence_exit) (checkFence now dev lastPos np d f []) =
     (if isActive f \<and> alertOnExit f \<and>
         (case lastPos of
            None \<Rightarrow> False
          | Some lp \<Rightarrow>
              getDistance (lat (center f)) (lng (center f)) (latitude lp) (longitude lp)
                \<le> radius f
              \<and> radius f < getDistance (lat (center f)) (lng (center f))
                             (latitude np) (longitude np))
      then [exitAlert now dev f np d] else [])"
  by (auto simp add: checkFence_def Let_def enterAlert_def exitAlert_def split: option.splits)

lemma checkFence_signal:
  "filter (\<lambda>a. alert_type a = signal_lost) (checkFence now dev lastPos np d f []) = []"
  by (simp add: checkFence_def Let_def enterAlert_def exitAlert_def split: option.splits)

lemma concat_fences_length:
  "length (concat (rev (map (\<lambda>f. checkFence now dev lastPos np d f []) fs))) \<le> length fs"
proof (induction fs)
  case Nil
  then show ?case by simp
next
  case (Cons f fs)
  then show ?case
    using checkFence_length[of now dev lastPos np d f] by simp
qed

lemma concat_fences_first_fix:
  "concat (rev (map (\<lambda>f. checkFence now dev None np d f []) fs)) = []"
  by (simp add: checkFence_first_fix)

lemma concat_fences_enter:
  "filter (\<lambda>a. alert_type a = geofence_enter)
     (concat (rev (map (\<lambda>f. checkFence now dev lastPos np d f []) fs))) =
   map (\<lambda>f. enterAlert now dev f np d)
     (rev (filter (\<lambda>f. isActive f \<and> alertOnEnter f \<and>
         (case lastPos of
            None \<Rightarrow> False
          | Some lp \<Rightarrow>
              radius f < getDistance (lat (center f)) (lng (center f)) (latitude lp) (longitude lp)
              \<and> getDistance (lat (center f)) (lng (center f)) (latitude np) (longitude np)
                  \<le> radius f)) fs))"
proof (induction fs)
  case Nil
  then show ?case by simp
next
  case (Cons f fs)
  show ?case
    by (simp only: list.map rev.simps concat_append filter_append Cons.IH concat.simps
          append_Nil2 checkFence_enter filter.simps map_append split: if_splits) simp
qed

lemma concat_fences_exit:
  "filter (\<lambda>a. alert_type a = geofence_exit)
     (concat (rev (map (\<lambda>f. checkFence now dev lastPos np d f []) fs))) =
   map (\<lambda>f. exitAlert now dev f np d)
     (rev (filter (\<lambda>f. isActive f \<and> alertOnExit f \<and>
         (case lastPos of
            None \<Rightarrow> False
          | Some lp \<Rightarrow>
              getDistance (lat (center f)) (lng (center f)) (latitude lp) (longitude lp)
                \<le> radius f
              \<and> radius f < getDistance (lat (center f)) (lng (center f))
                             (latitude np) (longitude np))) fs))"
proof (induction fs)
  case Nil
  then show ?case by simp
next
  case (Cons f fs)
  show ?case
    by (simp only: list.map rev.simps concat_append filter_append Cons.IH concat.simps
          append_Nil2 checkFence_exit filter.simps map_append split: if_splits) simp
qed

lemma concat_fences_signal:
  "filter (\<lambda>a. alert_type a = signal_lost)
     (concat (rev (map (\<lambda>f. checkFence now dev lastPos np d f []) fs))) = []"
  by (induction fs) (simp_all add: checkFence_signal)

lemma signalLost_iff:
  "signalLost sg lastPos =
     ((case lastPos of
         None \<Rightarrow> False
       | Some lp \<Rightarrow> (case signalStrength lp of None \<Rightarrow> False | Some v \<Rightarrow> v \<ge> 20))
      \<and> sg < 20)"
  by (auto simp add: signalLost_def split: option.splits)

lemma signalLost_first_fix: "\<not> signalLost sg None"
  by (simp add: signalLost_def)

lemma slice_first_short: "length xs \<le> n \<Longrightarrow> slice_first n xs = xs"
  by (simp add: slice_first_def)

section \<open>Geofence enter alerts\<close>

text \<open>
  Claim C6. A fix applied with playback off does not fail; the alerts it emits are put
  in front of the alert list (which is then cut to 50). Among them, the enter alerts
  are exactly one for each geofence that is active, alerts on entering, and for which
  a previous position exists whose distance to the centre exceeds the radius while the
  new position's distance is at most the radius (latest fence first); each has the
  priority \<open>enterAlert\<close> gives it. With no previous position nothing is emitted.
  The exit alerts are, likewise, one for each active geofence that alerts on leaving and
  whose previous position was inside and new position is outside; so a geofence that is
  not active emits nothing.
\<close>

theorem geofence_enter_alerts:
  assumes "\<not> isPlaying (state h)" and "hookOk h"
  shows "\<exists>h' np d emitted.
     handlePosition now position h = Inr h' \<and>
     \<not> isPlaying (state h') \<and> hookOk h' \<and> initialPositionSet h' \<and>
     currentPosition (state h') = Some np \<and>
     latitude np = coords_latitude position \<and>
     longitude np = coords_longitude position \<and>
     depth np = Some d \<and>
     geofences (state h') =
       (if initialPositionSet h then geofences (state h)
        else createMineGeofences (coords_latitude position) (coords_longitude position)) \<and>
     alerts (state h') = slice_first 50 (emitted @ alerts (state h)) \<and>
     length emitted \<le> length (geofences (state h')) + 1 \<and>
     (currentPosition (state h) = None \<longrightarrow> emitted = []) \<and>
     filter (\<lambda>a. alert_type a = geofence_enter) emitted =
       map (\<lambda>f. enterAlert now (device (state h)) f np d)
         (rev (filter
                (\<lambda>f. isActive f \<and> alertOnEnter f \<and>
                   (case currentPosition (state h) of
                      None \<Rightarrow> False
                    | Some lp \<Rightarrow>
                        radius f < getDistance (lat (center f)) (lng (center f))
                                     (latitude lp) (longitude lp)
                        \<and> getDistance (lat (center f)) (lng (center f))
                            (latitude np) (longitude np) \<le> radius f))
                (geofences (state h')))) \<and>
     filter (\<lambda>a. alert_type a = geofence_exit) emitted =
       map (\<lambda>f. exitAlert now (device (state h)) f np d)
         (rev (filter
                (\<lambda>f. isActive f \<and> alertOnExit f \<and>
                   (case currentPosition (state h) of
                      None \<Rightarrow> False
                    | Some lp \<Rightarrow>
                        getDistance (lat (center f)) (lng (center f))
                          (latitude lp) (longitude lp) \<le> radius f
                        \<and> radius f < getDistance (lat (center f)) (lng (center f))
                                       (latitude np) (longitude np)))
                (geofences (state h'))))"
proof -
  from handlePosition_live[OF assms, of now position]
  obtain h' np where h':
     "handlePosition now position h = Inr h'"
     "hookOk h'" "initialPositionSet h'"
     "isPlaying (state h') = isPlaying (state h)"
     "currentPosition (state h') = Some np"
     "positionKey np = fixKey position"
     "depth np = Some (calculateDepth now (coords_accuracy position) (trackHistory (state h)))"
     "geofences (state h') =
       (if \<not> initialPositionSet h
        then createMineGeofences (coords_latitude position) (coords_longitude position)
        else geofences (state h))"
     "alerts (state h') =
       slice_first 50
         ((if signalLost (the (signalStrength np)) (currentPosition (state h))
           then [signalAlert now (device (state h)) np (the (depth np))] else [])
          @ concat (rev (map (\<lambda>f. checkFence now (device (state h)) (currentPosition (state h))
                                   np (the (depth np)) f [])
                          (geofences (state h'))))
          @ alerts (state h))"
    by blast
  define d where "d = calculateDepth now (coords_accuracy position) (trackHistory (state h))"
  define fenceAlerts where "fenceAlerts =
     concat (rev (map (\<lambda>f. checkFence now (device (state h)) (currentPosition (state h)) np d f [])
                   (geofences (state h'))))"
  define emitted where "emitted =
     (if signalLost (the (signalStrength np)) (currentPosition (state h))
      then [signalAlert now (device (state h)) np d] else []) @ fenceAlerts"
  have dn: "depth np = Some d" by (simp add: h'(7) d_def)
  have 1: "alerts (state h') = slice_first 50 (emitted @ alerts (state h))"
    by (simp add: h'(9) emitted_def fenceAlerts_def dn)
  have 2: "length emitted \<le> length (geofences (state h')) + 1"
    unfolding emitted_def fenceAlerts_def
    using concat_fences_length[of now "device (state h)" "currentPosition (state h)" np d
        "geofences (state h')"]
    by simp
  have 3: "currentPosition (state h) = None \<longrightarrow> emitted = []"
    by (simp add: emitted_def fenceAlerts_def signalLost_first_fix checkFence_first_fix)
  have 4: "filter (\<lambda>a. alert_type a = geofence_enter) emitted =
       map (\<lambda>f. enterAlert now (device (state h)) f np d)
         (rev (filter
                (\<lambda>f. isActive f \<and> alertOnEnter f \<and>
                   (case currentPosition (state h) of
                      None \<Rightarrow> False
                    | Some lp \<Rightarrow>
                        radius f < getDistance (lat (center f)) (lng (center f))
                                     (latitude lp) (longitude lp)
                        \<and> getDistance (lat (center f)) (lng (center f))
                            (latitude np) (longitude np) \<le> radius f))
                (geofences (state h'))))"
    unfolding emitted_def fenceAlerts_def
    by (simp add: concat_fences_enter signalAlert_def)
  have 8: "filter (\<lambda>a. alert_type a = geofence_exit) emitted =
       map (\<lambda>f. exitAlert now (device (state h)) f np d)
         (rev (filter
                (\<lambda>f. isActive f \<and> alertOnExit f \<and>
                   (case currentPosition (state h) of
                      None \<Rightarrow> False
                    | Some lp \<Rightarrow>
                        getDistance (lat (center f)) (lng (center f))
                          (latitude lp) (longitude lp) \<le> radius f
                        \<and> radius f < getDistance (lat (center f)) (lng (center f))
                                       (latitude np) (longitude np)))
                (geofences (state h'))))"
    unfolding emitted_def fenceAlerts_def
    by (simp add: concat_fences_exit signalAlert_def)
  have 5: "latitude np = coords_latitude position" "longitude np = coords_longitude position"
    using h'(6) by (simp_all add: positionKey_def fixKey_def)
  have 6: "geofences (state h') =
       (if initialPositionSet h then geofences (state h)
        else createMineGeofences (coords_latitude position) (coords_longitude position))"
    using h'(8) by simp
  have 7: "\<not> isPlaying (state h')" using h'(4) assms(1) by simp
  note h'(1) 7 h'(2) h'(3) h'(5) 5 dn 6 1 2 3 4 8
  show ?thesis
    by (rule exI[of _ h'], rule exI[of _ np], rule exI[of _ d], rule exI[of _ emitted])
       (intro conjI; fact)
qed

lemma length_createMineGeofences: "length (createMineGeofences la lo) = 3"
  by (simp add: createMineGeofences_def)

lemma getDistance_same: "getDistance 0 0 0 0 = 0"
  by (simp add: getDistance_def atan2_def)

lemma getDistance_antipode: "getDistance 0 0 0 180 = 6371000 * pi"
  by (simp add: getDistance_def atan2_def)

lemma antipode_far: "\<not> 6371000 * pi \<le> 100" "100 < 6371000 * pi"
  using pi_ge_two by simp_all

text \<open>
  Four fixes from the initial state, all at time 0. The first, at (0.001, 0.001), creates
  the hazard fence around (0, 0) with radius 100 and emits nothing. The second, at
  (0, 180), is outside the fence; the third and the fourth, at (0, 0), are inside.
  Only the third emits an enter alert, for the hazard fence, with priority critical.
\<close>

theorem geofence_enter_witness:
  "\<not> isPlaying (state initialHook) \<and> hookOk initialHook \<and>
   (\<exists>h1 h2 h3 h4.
      handlePosition 0 (fixAt (1 / 1000) (1 / 1000) 10) initialHook = Inr h1 \<and>
      handlePosition 0 (fixAt 0 180 10) h1 = Inr h2 \<and>
      handlePosition 0 (fixAt 0 0 10) h2 = Inr h3 \<and>
      handlePosition 0 (fixAt 0 0 10) h3 = Inr h4 \<and>
      filter (\<lambda>a. alert_type a = geofence_enter) (alerts (state h1)) = [] \<and>
      filter (\<lambda>a. alert_type a = geofence_enter) (alerts (state h2)) = [] \<and>
      map (\<lambda>a. (geofenceId a, priority a))
        (filter (\<lambda>a. alert_type a = geofence_enter) (alerts (state h3)))
        = [(Some ''geofence-hazard'', Some critical)] \<and>
      filter (\<lambda>a. alert_type a = geofence_enter) (alerts (state h4))
        = filter (\<lambda>a. alert_type a = geofence_enter) (alerts (state h3)))"
proof -
  define G where "G = createMineGeofences (1 / 1000) (1 / 1000)"
  have step: "\<exists>h' np d.
      handlePosition 0 (fixAt la lo 10) h = Inr h' \<and> \<not> isPlaying (state h') \<and> hookOk h' \<and>
      initialPositionSet h' \<and> geofences (state h') = G \<and>
      currentPosition (state h') = Some np \<and> latitude np = la \<and> longitude np = lo \<and>
      length (alerts (state h')) \<le> length (alerts (state h)) + 4 \<and>
      filter (\<lambda>a. alert_type a = geofence_enter) (alerts (state h')) =
        map (\<lambda>f. enterAlert 0 (device (state h)) f np d)
          (rev (filter
                 (\<lambda>f. isActive f \<and> alertOnEnter f \<and>
                    (case currentPosition (state h) of
                       None \<Rightarrow> False
                     | Some lp \<Rightarrow>
                         radius f < getDistance (lat (center f)) (lng (center f))
                                      (latitude lp) (longitude lp)
                         \<and> getDistance (lat (center f)) (lng (center f)) la lo \<le> radius f))
                 G))
        @ filter (\<lambda>a. alert_type a = geofence_enter) (alerts (state h))"
    if p: "\<not> isPlaying (state h)" "hookOk h"
      and g: "(if initialPositionSet h then geofences (state h)
               else createMineGeofences la lo) = G"
      and l: "length (alerts (state h)) \<le> 46"
    for h la lo
  proof -
    from geofence_enter_alerts[OF p, of 0 "fixAt la lo 10"]
    obtain h' np d emitted where t:
      "handlePosition 0 (fixAt la lo 10) h = Inr h'"
      "\<not> isPlaying (state h')" "hookOk h'" "initialPositionSet h'"
      "currentPosition (state h') = Some np"
      "latitude np = coords_latitude (fixAt la lo 10)"
      "longitude np = coords_longitude (fixAt la lo 10)"
      "geofences (state h') =
        (if initialPositionSet h then geofences (state h)
         else createMineGeofences (coords_latitude (fixAt la lo 10))
                (coords_longitude (fixAt la lo 10)))"
      "alerts (state h') = slice_first 50 (emitted @ alerts (state h))"
      "length emitted \<le> length (geofences (state h')) + 1"
      "filter (\<lambda>a. alert_type a = geofence_enter) emitted =
         map (\<lambda>f. enterAlert 0 (device (state h)) f np d)
           (rev (filter
                  (\<lambda>f. isActive f \<and> alertOnEnter f \<and>
                     (case currentPosition (state h) of
                        None \<Rightarrow> False
                      | Some lp \<Rightarrow>
                          radius f < getDistance (lat (center f)) (lng (center f))
                                       (latitude lp) (longitude lp)
                          \<and> getDistance (lat (center f)) (lng (center f))
                              (latitude np) (longitude np) \<le> radius f))
                  (geofences (state h'))))"
      by blast
    have ll: "latitude np = la" "longitude np = lo"
      using t(6,7) by (simp_all add: fixAt_def)
    have gg: "geofences (state h') = G"
      using t(8) g by (auto simp add: fixAt_def split: if_splits)
    have g3: "length (geofences (state h')) = 3"
      unfolding gg G_def by (rule length_createMineGeofences)
    have le: "length (emitted @ alerts (state h)) \<le> 50"
      using t(10) g3 l by simp
    have al: "alerts (state h') = emitted @ alerts (state h)"
      using t(9) slice_first_short[OF le] by simp
    have len: "length (alerts (state h')) \<le> length (alerts (state h)) + 4"
      unfolding al using t(10) g3 by simp
    have fl: "filter (\<lambda>a. alert_type a = geofence_enter) (alerts (state h')) =
        map (\<lambda>f. enterAlert 0 (device (state h)) f np d)
          (rev (filter
                 (\<lambda>f. isActive f \<and> alertOnEnter f \<and>
                    (case currentPosition (state h) of
                       None \<Rightarrow> False
                     | Some lp \<Rightarrow>
                         radius f < getDistance (lat (center f)) (lng (center f))
                                      (latitude lp) (longitude lp)
                         \<and> getDistance (lat (center f)) (lng (center f)) la lo \<le> radius f))
                 G))
        @ filter (\<lambda>a. alert_type a = geofence_enter) (alerts (state h))"
      unfolding al filter_append t(11) ll gg ..
    note t(1-4) gg t(5) ll len fl
    show ?thesis
      by (rule exI[of _ h'], rule exI[of _ np], rule exI[of _ d]) (intro conjI; fact)
  qed
  have i: "(if initialPositionSet initialHook then geofences (state initialHook)
               else createMineGeofences (1 / 1000) (1 / 1000)) = G"
    "length (alerts (state initialHook)) \<le> 46"
    by (simp_all add: initialHook_ok G_def)
  have Gs: "G = createMineGeofences (1 / 1000) (1 / 1000)" by (rule G_def)
  from step[OF initialHook_ok(2,1) i]
  obtain h1 np1 where 1: "handlePosition 0 (fixAt (1 / 1000) (1 / 1000) 10) initialHook = Inr h1"
    "\<not> isPlaying (state h1)" "hookOk h1" "initialPositionSet h1" "geofences (state h1) = G"
    "currentPosition (state h1) = Some np1" "latitude np1 = 1 / 1000" "longitude np1 = 1 / 1000"
    "length (alerts (state h1)) \<le> 4"
    "filter (\<lambda>a. alert_type a = geofence_enter) (alerts (state h1)) = []"
    by (auto simp add: initialHook_ok)
  have g1: "(if initialPositionSet h1 then geofences (state h1)
               else createMineGeofences 0 180) = G" using 1(4,5) by simp
  have l1: "length (alerts (state h1)) \<le> 46" using 1(9) by simp
  from step[OF 1(2,3) g1 l1]
  obtain h2 np2 where 2: "handlePosition 0 (fixAt 0 180 10) h1 = Inr h2"
    "\<not> isPlaying (state h2)" "hookOk h2" "initialPositionSet h2" "geofences (state h2) = G"
    "currentPosition (state h2) = Some np2" "latitude np2 = 0" "longitude np2 = 180"
    "length (alerts (state h2)) \<le> length (alerts (state h1)) + 4"
    "filter (\<lambda>a. alert_type a = geofence_enter) (alerts (state h2)) = []"
    by (auto simp add: 1 Gs createMineGeofences_def getDistance_antipode antipode_far)
  have g2: "(if initialPositionSet h2 then geofences (state h2)
               else createMineGeofences 0 0) = G" using 2(4,5) by simp
  have l2: "length (alerts (state h2)) \<le> 46" using 2(9) 1(9) by simp
  from step[OF 2(2,3) g2 l2]
  obtain h3 np3 d3 where 3: "handlePosition 0 (fixAt 0 0 10) h2 = Inr h3"
    "\<not> isPlaying (state h3)" "hookOk h3" "initialPositionSet h3" "geofences (state h3) = G"
    "currentPosition (state h3) = Some np3" "latitude np3 = 0" "longitude np3 = 0"
    "length (alerts (state h3)) \<le> length (alerts (state h2)) + 4"
    "filter (\<lambda>a. alert_type a = geofence_enter) (alerts (state h3))
       = [enterAlert 0 (device (state h2))
            \<lparr>fence_id = ''geofence-hazard'', fence_name = ''Hazard Zone - Blasting Area'',
             center = \<lparr>lat = 0, lng = 0\<rparr>, radius = 100, isActive = True,
             alertOnEnter = True, alertOnExit = False, zoneType = Some hazard\<rparr> np3 d3]"
    by (auto simp add: 2 Gs createMineGeofences_def getDistance_antipode antipode_far
          getDistance_same)
  have g3: "(if initialPositionSet h3 then geofences (state h3)
               else createMineGeofences 0 0) = G" using 3(4,5) by simp
  have l3: "length (alerts (state h3)) \<le> 46" using 3(9) 2(9) 1(9) by simp
  from step[OF 3(2,3) g3 l3]
  obtain h4 where 4: "handlePosition 0 (fixAt 0 0 10) h3 = Inr h4"
    "filter (\<lambda>a. alert_type a = geofence_enter) (alerts (state h4))
       = filter (\<lambda>a. alert_type a = geofence_enter) (alerts (state h3))"
    by (auto simp add: 3(1-9) Gs createMineGeofences_def getDistance_same)
  have 5: "map (\<lambda>a. (geofenceId a, priority a))
        (filter (\<lambda>a. alert_type a = geofence_enter) (alerts (state h3)))
        = [(Some ''geofence-hazard'', Some critical)]"
    unfolding 3(10) by (simp add: enterAlert_def)
  note 1(1,10) 2(1,10) 3(1) 4 5
  have "\<exists>h1 h2 h3 h4.
      handlePosition 0 (fixAt (1 / 1000) (1 / 1000) 10) initialHook = Inr h1 \<and>
      handlePosition 0 (fixAt 0 180 10) h1 = Inr h2 \<and>
      handlePosition 0 (fixAt 0 0 10) h2 = Inr h3 \<and>
      handlePosition 0 (fixAt 0 0 10) h3 = Inr h4 \<and>
      filter (\<lambda>a. alert_type a = geofence_enter) (alerts (state h1)) = [] \<and>
      filter (\<lambda>a. alert_type a = geofence_enter) (alerts (state h2)) = [] \<and>
      map (\<lambda>a. (geofenceId a, priority a))
        (filter (\<lambda>a. alert_type a = geofence_enter) (alerts (state h3)))
        = [(Some ''geofence-hazard'', Some critical)] \<and>
      filter (\<lambda>a. alert_type a = geofence_enter) (alerts (state h4))
        = filter (\<lambda>a. alert_type a = geofence_enter) (alerts (state h3))"
    by (rule exI[of _ h1], rule exI[of _ h2], rule exI[of _ h3], rule exI[of _ h4])
       (intro conjI; fact)
  with initialHook_ok(1,2) show ?thesis by simp
qed

section \<open>Signal-lost alerts\<close>

text \<open>
  Claim C7. A fix applied with playback off does not fail; among the alerts it emits
  there is a signal-lost alert exactly when a previous position exists, its signal
  strength is at least 20 and the new position's signal strength is below 20; there is
  at most one, and its priority is high.
\<close>

theorem signal_lost_alerts:
  assumes "\<not> isPlaying (state h)" and "hookOk h"
  shows "\<exists>h' np sg emitted.
     handlePosition now position h = Inr h' \<and>
     \<not> isPlaying (state h') \<and> hookOk h' \<and> initialPositionSet h' \<and>
     currentPosition (state h') = Some np \<and>
     signalStrength np = Some sg \<and>
     sg = calculateSignalStrength (coords_accuracy position)
            (calculateDepth now (coords_accuracy position) (trackHistory (state h))) \<and>
     geofences (state h') =
       (if initialPositionSet h then geofences (state h)
        else createMineGeofences (coords_latitude position) (coords_longitude position)) \<and>
     alerts (state h') = slice_first 50 (emitted @ alerts (state h)) \<and>
     length emitted \<le> length (geofences (state h')) + 1 \<and>
     filter (\<lambda>a. alert_type a = signal_lost) emitted =
       (if (case currentPosition (state h) of
              None \<Rightarrow> False
            | Some lp \<Rightarrow> (case signalStrength lp of None \<Rightarrow> False | Some v \<Rightarrow> v \<ge> 20))
           \<and> sg < 20
        then [signalAlert now (device (state h)) np (the (depth np))] else []) \<and>
     priority (signalAlert now (device (state h)) np (the (depth np))) = Some high"
proof -
  from handlePosition_live[OF assms, of now position]
  obtain h' np where h':
     "handlePosition now position h = Inr h'"
     "hookOk h'" "initialPositionSet h'"
     "isPlaying (state h') = isPlaying (state h)"
     "currentPosition (state h') = Some np"
     "signalStrength np =
       Some (calculateSignalStrength (coords_accuracy position)
              (calculateDepth now (coords_accuracy position) (trackHistory (state h))))"
     "geofences (state h') =
       (if \<not> initialPositionSet h
        then createMineGeofences (coords_latitude position) (coords_longitude position)
        else geofences (state h))"
     "alerts (state h') =
       slice_first 50
         ((if signalLost (the (signalStrength np)) (currentPosition (state h))
           then [signalAlert now (device (state h)) np (the (depth np))] else [])
          @ concat (rev (map (\<lambda>f. checkFence now (device (state h)) (currentPosition (state h))
                                   np (the (depth np)) f [])
                          (geofences (state h'))))
          @ alerts (state h))"
    by blast
  define sg where "sg = calculateSignalStrength (coords_accuracy position)
            (calculateDepth now (coords_accuracy position) (trackHistory (state h)))"
  define fenceAlerts where "fenceAlerts =
     concat (rev (map (\<lambda>f. checkFence now (device (state h)) (currentPosition (state h)) np
                             (the (depth np)) f [])
                   (geofences (state h'))))"
  define emitted where "emitted =
     (if signalLost sg (currentPosition (state h))
      then [signalAlert now (device (state h)) np (the (depth np))] else []) @ fenceAlerts"
  have sn: "signalStrength np = Some sg" by (simp add: h'(6) sg_def)
  have 1: "alerts (state h') = slice_first 50 (emitted @ alerts (state h))"
    by (simp add: h'(8) emitted_def fenceAlerts_def sn)
  have 2: "length emitted \<le> length (geofences (state h')) + 1"
    unfolding emitted_def fenceAlerts_def
    using concat_fences_length[of now "device (state h)" "currentPosition (state h)" np
        "the (depth np)" "geofences (state h')"]
    by simp
  have 4: "filter (\<lambda>a. alert_type a = signal_lost) emitted =
       (if (case currentPosition (state h) of
              None \<Rightarrow> False
            | Some lp \<Rightarrow> (case signalStrength lp of None \<Rightarrow> False | Some v \<Rightarrow> v \<ge> 20))
           \<and> sg < 20
        then [signalAlert now (device (state h)) np (the (depth np))] else [])"
    unfolding emitted_def fenceAlerts_def
    by (simp add: concat_fences_signal signalLost_iff signalAlert_def)
  have 5: "priority (signalAlert now (device (state h)) np (the (depth np))) = Some high"
    by (simp add: signalAlert_def)
  have 6: "geofences (state h') =
       (if initialPositionSet h then geofences (state h)
        else createMineGeofences (coords_latitude position) (coords_longitude position))"
    using h'(7) by simp
  have 7: "\<not> isPlaying (state h')" using h'(4) assms(1) by simp
  note h'(1) 7 h'(2) h'(3) h'(5) sn sg_def 6 1 2 4 5
  show ?thesis
    by (rule exI[of _ h'], rule exI[of _ np], rule exI[of _ sg], rule exI[of _ emitted])
       (intro conjI; fact)
qed

lemma calculateDepth_history: "calculateDepth now acc hist = calculateDepth now acc []"
  by (simp add: calculateDepth_def)

lemma readings:
  "calculateSignalStrength 65 (calculateDepth 0 65 []) = 25"
  "calculateSignalStrength 71 (calculateDepth 0 71 []) = 18"
  "calculateSignalStrength 74 (calculateDepth 0 74 []) = 15"
  by (simp_all add: calculateSignalStrength_def calculateDepth_def js_round_def)

text \<open>
  Fixes at (0, 0) and time 0 with accuracies 65, 71 and 74 give the signal strengths 25,
  18 and 15. The readings 25, 18 emit one signal-lost alert, on the second fix; the
  readings 18, 25, 15 emit one, on the third.
\<close>

theorem signal_lost_witness:
  "\<not> isPlaying (state initialHook) \<and> hookOk initialHook \<and>
   (\<exists>h1 h2.
      handlePosition 0 (fixAt 0 0 65) initialHook = Inr h1 \<and>
      handlePosition 0 (fixAt 0 0 71) h1 = Inr h2 \<and>
      map signalStrength (trackHistory (state h2)) = [Some 25, Some 18] \<and>
      filter (\<lambda>a. alert_type a = signal_lost) (alerts (state h1)) = [] \<and>
      map priority (filter (\<lambda>a. alert_type a = signal_lost) (alerts (state h2))) = [Some high]) \<and>
   (\<exists>h1 h2 h3.
      handlePosition 0 (fixAt 0 0 71) initialHook = Inr h1 \<and>
      handlePosition 0 (fixAt 0 0 65) h1 = Inr h2 \<and>
      handlePosition 0 (fixAt 0 0 74) h2 = Inr h3 \<and>
      map signalStrength (trackHistory (state h3)) = [Some 18, Some 25, Some 15] \<and>
      filter (\<lambda>a. alert_type a = signal_lost) (alerts (state h1)) = [] \<and>
      filter (\<lambda>a. alert_type a = signal_lost) (alerts (state h2)) = [] \<and>
      map priority (filter (\<lambda>a. alert_type a = signal_lost) (alerts (state h3))) = [Some high])"
proof -
  have step: "\<exists>h' np.
      handlePosition 0 (fixAt 0 0 a) h = Inr h' \<and> \<not> isPlaying (state h') \<and> hookOk h' \<and>
      initialPositionSet h' \<and> length (geofences (state h')) = 3 \<and>
      currentPosition (state h') = Some np \<and>
      signalStrength np = Some (calculateSignalStrength a (calculateDepth 0 a [])) \<and>
      trackHistory (state h') = slice_last 199 (trackHistory (state h)) @ [np] \<and>
      length (alerts (state h')) \<le> length (alerts (state h)) + 4 \<and>
      filter (\<lambda>a. alert_type a = signal_lost) (alerts (state h')) =
        (if (case currentPosition (state h) of
              None \<Rightarrow> False
            | Some lp \<Rightarrow> (case signalStrength lp of None \<Rightarrow> False | Some v \<Rightarrow> v \<ge> 20))
           \<and> calculateSignalStrength a (calculateDepth 0 a []) < 20
         then [signalAlert 0 (device (state h)) np (the (depth np))] else [])
        @ filter (\<lambda>a. alert_type a = signal_lost) (alerts (state h))"
    if p: "\<not> isPlaying (state h)" "hookOk h"
      and g: "initialPositionSet h \<longrightarrow> length (geofences (state h)) = 3"
      and l: "length (alerts (state h)) \<le> 46"
    for h a
  proof -
    from signal_lost_alerts[OF p, of 0 "fixAt 0 0 a"]
    obtain h' np sg emitted where t:
      "handlePosition 0 (fixAt 0 0 a) h = Inr h'"
      "\<not> isPlaying (state h')" "hookOk h'" "initialPositionSet h'"
      "currentPosition (state h') = Some np"
      "signalStrength np = Some sg"
      "sg = calculateSignalStrength (coords_accuracy (fixAt 0 0 a))
            (calculateDepth 0 (coords_accuracy (fixAt 0 0 a)) (trackHistory (state h)))"
      "geofences (state h') =
        (if initialPositionSet h then geofences (state h)
         else createMineGeofences (coords_latitude (fixAt 0 0 a)) (coords_longitude (fixAt 0 0 a)))"
      "alerts (state h') = slice_first 50 (emitted @ alerts (state h))"
      "length emitted \<le> length (geofences (state h')) + 1"
      "filter (\<lambda>a. alert_type a = signal_lost) emitted =
        (if (case currentPosition (state h) of
              None \<Rightarrow> False
            | Some lp \<Rightarrow> (case signalStrength lp of None \<Rightarrow> False | Some v \<Rightarrow> v \<ge> 20))
           \<and> sg < 20
         then [signalAlert 0 (device (state h)) np (the (depth np))] else [])"
      by blast
    from handlePosition_live[OF p, of 0 "fixAt 0 0 a"] t(1,5)
    have hist: "trackHistory (state h') = slice_last 199 (trackHistory (state h)) @ [np]"
      by auto
    have sg: "sg = calculateSignalStrength a (calculateDepth 0 a [])"
      using t(7) calculateDepth_history[of 0 a "trackHistory (state h)"]
      by (simp add: fixAt_def)
    have g3: "length (geofences (state h')) = 3"
      using t(8) g by (simp add: length_createMineGeofences)
    have le: "length (emitted @ alerts (state h)) \<le> 50"
      using t(10) g3 l by simp
    have al: "alerts (state h') = emitted @ alerts (state h)"
      using t(9) slice_first_short[OF le] by simp
    have len: "length (alerts (state h')) \<le> length (alerts (state h)) + 4"
      unfolding al using t(10) g3 by simp
    have fl: "filter (\<lambda>a. alert_type a = signal_lost) (alerts (state h')) =
        (if (case currentPosition (state h) of
              None \<Rightarrow> False
            | Some lp \<Rightarrow> (case signalStrength lp of None \<Rightarrow> False | Some v \<Rightarrow> v \<ge> 20))
           \<and> calculateSignalStrength a (calculateDepth 0 a []) < 20
         then [signalAlert 0 (device (state h)) np (the (depth np))] else [])
        @ filter (\<lambda>a. alert_type a = signal_lost) (alerts (state h))"
      unfolding al filter_append t(11) sg ..
    show ?thesis
      using t(1-5) g3 t(6) hist len fl unfolding sg by blast
  qed
  have i: "initialPositionSet initialHook \<longrightarrow> length (geofences (state initialHook)) = 3"
    "length (alerts (state initialHook)) \<le> 46"
    by (simp_all add: initialHook_ok)
  have A: "\<exists>h1 h2.
      handlePosition 0 (fixAt 0 0 65) initialHook = Inr h1 \<and>
      handlePosition 0 (fixAt 0 0 71) h1 = Inr h2 \<and>
      map signalStrength (trackHistory (state h2)) = [Some 25, Some 18] \<and>
      filter (\<lambda>a. alert_type a = signal_lost) (alerts (state h1)) = [] \<and>
      map priority (filter (\<lambda>a. alert_type a = signal_lost) (alerts (state h2))) = [Some high]"
  proof -
    from step[OF initialHook_ok(2,1) i, of 65]
    obtain h1 np1 where 1: "handlePosition 0 (fixAt 0 0 65) initialHook = Inr h1"
      "\<not> isPlaying (state h1)" "hookOk h1" "initialPositionSet h1"
      "length (geofences (state h1)) = 3" "currentPosition (state h1) = Some np1"
      "signalStrength np1 = Some 25" "trackHistory (state h1) = [np1]"
      "length (alerts (state h1)) \<le> 4"
      "filter (\<lambda>a. alert_type a = signal_lost) (alerts (state h1)) = []"
      by (auto simp add: initialHook_ok readings slice_last_def)
    from step[OF 1(2,3), of 71] 1(5,9)
    obtain h2 np2 where 2: "handlePosition 0 (fixAt 0 0 71) h1 = Inr h2"
      "signalStrength np2 = Some 18" "trackHistory (state h2) = [np1, np2]"
      "filter (\<lambda>a. alert_type a = signal_lost) (alerts (state h2))
         = [signalAlert 0 (device (state h1)) np2 (the (depth np2))]"
      by (auto simp add: 1 readings slice_last_def)
    show ?thesis using 1 2 by (simp add: signalAlert_def)
  qed
  have B: "\<exists>h1 h2 h3.
      handlePosition 0 (fixAt 0 0 71) initialHook = Inr h1 \<and>
      handlePosition 0 (fixAt 0 0 65) h1 = Inr h2 \<and>
      handlePosition 0 (fixAt 0 0 74) h2 = Inr h3 \<and>
      map signalStrength (trackHistory (state h3)) = [Some 18, Some 25, Some 15] \<and>
      filter (\<lambda>a. alert_type a = signal_lost) (alerts (state h1)) = [] \<and>
      filter (\<lambda>a. alert_type a = signal_lost) (alerts (state h2)) = [] \<and>
      map priority (filter (\<lambda>a. alert_type a = signal_lost) (alerts (state h3))) = [Some high]"
  proof -
    from step[OF initialHook_ok(2,1) i, of 71]
    obtain h1 np1 where 1: "handlePosition 0 (fixAt 0 0 71) initialHook = Inr h1"
      "\<not> isPlaying (state h1)" "hookOk h1" "initialPositionSet h1"
      "length (geofences (state h1)) = 3" "currentPosition (state h1) = Some np1"
      "signalStrength np1 = Some 18" "trackHistory (state h1) = [np1]"
      "length (alerts (state h1)) \<le> 4"
      "filter (\<lambda>a. alert_type a = signal_lost) (alerts (state h1)) = []"
      by (auto simp add: initialHook_ok readings slice_last_def)
    from step[OF 1(2,3), of 65] 1(5,9)
    obtain h2 np2 where 2: "handlePosition 0 (fixAt 0 0 65) h1 = Inr h2"
      "\<not> isPlaying (state h2)" "hookOk h2" "initialPositionSet h2"
      "length (geofences (state h2)) = 3" "currentPosition (state h2) = Some np2"
      "signalStrength np2 = Some 25" "trackHistory (state h2) = [np1, np2]"
      "length (alerts (state h2)) \<le> length (alerts (state h1)) + 4"
      "filter (\<lambda>a. alert_type a = signal_lost) (alerts (state h2)) = []"
      by (auto simp add: 1 readings slice_last_def)
    have l2: "length (alerts (state h2)) \<le> 46" using 2(9) 1(9) by simp
    from step[OF 2(2,3), of 74] 2(5) l2
    obtain h3 np3 where 3: "handlePosition 0 (fixAt 0 0 74) h2 = Inr h3"
      "signalStrength np3 = Some 15" "trackHistory (state h3) = [np1, np2, np3]"
      "filter (\<lambda>a. alert_type a = signal_lost) (alerts (state h3))
         = [signalAlert 0 (device (state h2)) np3 (the (depth np3))]"
      by (auto simp add: 2 readings slice_last_def)
    show ?thesis using 1 2 3 by (simp add: signalAlert_def)
  qed
  from A B initialHook_ok(1,2) show ?thesis by blast
qed

end
